theory Spec2Isabelle
  imports Main "HOL-Library.Char_ord" "HOL-Library.List_Lexorder" "HOL-Library.Multiset"
begin

section \<open>Python values used by monitor.py\<close>

text \<open>
  Exceptions are values: the class that an \<open>except\<close> clause tests and the text that
  \<open>str(e)\<close> gives. A call that may raise returns \<open>exn + 'a\<close>, \<open>Inl\<close> for the raise.
\<close>

datatype exn_class =
  KeyError | ValueError | TypeError | IndexError | CalledProcessError | DockerException | OSError

datatype exn = Raise exn_class string

fun exn_class_of :: "exn \<Rightarrow> exn_class" where
  "exn_class_of (Raise k m) = k"

fun str_exn :: "exn \<Rightarrow> string" where
  "str_exn (Raise k m) = m"

text \<open>Truthiness of a string and of an attribute that is \<open>None\<close> or a string.\<close>

definition truthy :: "string \<Rightarrow> bool" where
  "truthy s = (s \<noteq> [])"

fun truthy_opt :: "string option \<Rightarrow> bool" where
  "truthy_opt None = False"
| "truthy_opt (Some s) = truthy s"

text \<open>\<open>str(n)\<close> of an integer, as an f-string prints it.\<close>

definition digit_char :: "nat \<Rightarrow> char" where
  "digit_char d = ''0123456789'' ! d"

fun str_nat :: "nat \<Rightarrow> string" where
  "str_nat n = (if n < 10 then [digit_char n] else str_nat (n div 10) @ [digit_char (n mod 10)])"

declare str_nat.simps [simp del]

definition str_int :: "int \<Rightarrow> string" where
  "str_int i = (if i < 0 then CHR ''-'' # str_nat (nat (- i)) else str_nat (nat i))"

text \<open>\<open>xs[i]\<close>: a negative index counts from the end, an index out of range raises.\<close>

definition py_index :: "'a list \<Rightarrow> int \<Rightarrow> exn + 'a" where
  "py_index xs i =
     (if 0 \<le> i \<and> i < int (length xs) then Inr (xs ! nat i)
      else if i < 0 \<and> - int (length xs) \<le> i then Inr (xs ! nat (int (length xs) + i))
      else Inl (Raise IndexError ''list index out of range''))"

text \<open>\<open>needle in s\<close> for strings.\<close>

fun contains :: "string \<Rightarrow> string \<Rightarrow> bool" where
  "contains needle [] = (needle = [])"
| "contains needle (c # cs) = (take (length needle) (c # cs) = needle \<or> contains needle cs)"

text \<open>\<open>sep.join(parts)\<close>.\<close>

fun join :: "string \<Rightarrow> string list \<Rightarrow> string" where
  "join sep [] = []"
| "join sep [p] = p"
| "join sep (p # q # ps) = p @ sep @ join sep (q # ps)"

text \<open>\<open>s.split('/')[0]\<close>: the text before the first slash.\<close>

definition split_slash_first :: "string \<Rightarrow> string" where
  "split_slash_first s = takeWhile (\<lambda>c. c \<noteq> CHR ''/'') s"

text \<open>\<open>s.replace('Z', '+00:00')\<close>.\<close>

definition replace_Z :: "string \<Rightarrow> string" where
  "replace_Z s = concat (map (\<lambda>c. if c = CHR ''Z'' then ''+00:00'' else [c]) s)"

section \<open>The regular expression of the NAT fallback\<close>

text \<open>
  \<open>re.search(r'--dport\s+(\d+)', output)\<close> and its \<open>group(1)\<close>: the leftmost place where
  \<open>--dport\<close> is followed by at least one white-space character and then a digit; the
  group is the longest run of digits there. Characters are bytes here, so the classes are
  the ASCII ones of \<open>str.isspace\<close> and \<open>str.isdigit\<close>.
\<close>

definition is_space :: "char \<Rightarrow> bool" where
  "is_space c = (let n = (of_char c :: nat) in (9 \<le> n \<and> n \<le> 13) \<or> (28 \<le> n \<and> n \<le> 32))"

definition is_digit :: "char \<Rightarrow> bool" where
  "is_digit c = (let n = (of_char c :: nat) in 48 \<le> n \<and> n \<le> 57)"

definition dport_at :: "string \<Rightarrow> string option" where
  "dport_at s =
     (if take 7 s = ''--dport'' then
        (let rest = drop 7 s; after = dropWhile is_space rest; port = takeWhile is_digit after
         in if rest \<noteq> [] \<and> is_space (hd rest) \<and> port \<noteq> [] then Some port else None)
      else None)"

fun re_search_dport :: "string \<Rightarrow> string option" where
  "re_search_dport [] = None"
| "re_search_dport (c # cs) =
     (case dport_at (c # cs) of Some p \<Rightarrow> Some p | None \<Rightarrow> re_search_dport cs)"

section \<open>The monitor and what it talks to\<close>

text \<open>
  What \<open>datetime.fromisoformat\<close> returns: an instant in microseconds since the epoch,
  with an offset (aware) or without one (naive).
\<close>

datatype datetime = Naive int | Aware int

text \<open>
  The surroundings of one call, as the code reads them: the ISO parser (\<open>None\<close> where it
  raises ValueError), the clock in microseconds since the epoch, \<open>subprocess.run\<close> of a
  shell command with \<open>check=True\<close> (its standard output, or the exception it raises:
  CalledProcessError for a non-zero exit status of the pipeline, which is the status of
  \<open>grep\<close>), and the float formatting \<open>f"{b / (1024**3):.2f}G"\<close> of a byte count.
\<close>

record env =
  fromisoformat :: "string \<Rightarrow> datetime option"
  now_us :: int
  run :: "string \<Rightarrow> exn + string"
  format_gb :: "int \<Rightarrow> string"

text \<open>
  A container handle with the inspection data the code reads: \<open>attrs['State']['StartedAt']\<close>
  (\<open>None\<close> where the key is missing), the networks in the order of the dictionary with
  their \<open>IPAddress\<close>, the \<open>Ports\<close> dictionary in its order (a value is \<open>None\<close> or a list of
  bindings, each with its \<open>HostPort\<close> if it has one), the reply of \<open>stats(stream=False)\<close>
  (the exception, or \<open>memory_stats.usage\<close> where present), and the image lookup (tags and
  short id), which is a request to the runtime and may raise.
\<close>

record container =
  short_id :: string
  name :: string
  status :: string
  image :: "exn + (string list \<times> string)"
  networks :: "(string \<times> string option) list"
  port_data :: "(string \<times> string option list option) list"
  started_at :: "string option"
  stats :: "exn + int option"

text \<open>
  The fields of \<open>SystemMonitor\<close>, and after them what the process has done to the outside:
  the number of requests sent to the container runtime, the shell commands run, and the
  status lines painted in the footer.
\<close>

record monitor =
  docker_error :: "string option"
  selected_index :: int
  scroll_pos :: int
  status_message :: string
  runtime_calls :: nat
  commands :: "string list"
  painted :: "string list"

text \<open>\<open>__init__\<close>: \<open>ping\<close> is the exception of \<open>docker.from_env\<close> or \<open>ping\<close>, if any.\<close>

definition init :: "exn option \<Rightarrow> monitor" where
  "init ping =
     \<lparr> docker_error = (case ping of None \<Rightarrow> None
                        | Some e \<Rightarrow> Some (''Docker not available: '' @ str_exn e)),
       selected_index = 0, scroll_pos = 0, status_message = '''',
       runtime_calls = 1, commands = [], painted = [] \<rparr>"

section \<open>Data fetching\<close>

text \<open>\<open>_get_host_port_from_iptables\<close>, with the monitor after the call.\<close>

definition iptables_command :: "string \<Rightarrow> string \<Rightarrow> string" where
  "iptables_command container_ip container_i_port =
     ''sudo iptables-save | grep '' @ [CHR 0x27] @ ''DNAT.*--to-destination ''
       @ container_ip @ '':'' @ container_i_port @ [CHR 0x27]"

definition get_host_port_from_iptables ::
  "env \<Rightarrow> monitor \<Rightarrow> string \<Rightarrow> string \<Rightarrow> string \<times> monitor" where
  "get_host_port_from_iptables e m container_ip container_i_port =
     (if \<not> truthy container_ip \<or> \<not> truthy container_i_port then (''N/A'', m)
      else
        (let command = iptables_command container_ip container_i_port;
             m' = m\<lparr>commands := commands m @ [command]\<rparr>
         in case run e command of
              Inr output \<Rightarrow>
                (if truthy output then
                   (case re_search_dport output of
                      Some p \<Rightarrow> (p, m')
                    | None \<Rightarrow> (''N/A'', m'))
                 else (''N/A'', m'))
            | Inl x \<Rightarrow>
                (if exn_class_of x = CalledProcessError then (''N/A'', m')
                 else (''Error'', m'))))"

text \<open>
  Lines 78 to 93 of \<open>_get_container_uptime\<close>: the string for a number of whole seconds.
  Python's \<open>divmod\<close> rounds to minus infinity, as \<open>div\<close> and \<open>mod\<close> on \<open>int\<close> do.
\<close>

definition format_uptime :: "int \<Rightarrow> string" where
  "format_uptime total_seconds =
     (let days = total_seconds div 86400; remainder = total_seconds mod 86400;
          hours = remainder div 3600; remainder' = remainder mod 3600;
          minutes = remainder' div 60; seconds = remainder' mod 60;
          parts0 = [];
          parts1 = (if days > 0 then parts0 @ [str_int days @ ''d''] else parts0);
          parts2 = (if hours > 0 then parts1 @ [str_int hours @ ''h''] else parts1);
          parts3 = (if minutes > 0 then parts2 @ [str_int minutes @ ''m''] else parts2);
          parts4 = (if parts3 = [] \<and> seconds \<ge> 0 then parts3 @ [str_int seconds @ ''s'']
                    else parts3)
      in concat parts4)"

text \<open>
  \<open>int(uptime_delta.total_seconds())\<close>: the difference in microseconds, divided by a
  million and cut towards zero. (The division is a float one; it is exact enough for the
  cut below 2^53 microseconds, some 285 years.)
\<close>

definition total_seconds_int :: "int \<Rightarrow> int" where
  "total_seconds_int delta_us =
     (if delta_us < 0 then - ((- delta_us) div 1000000) else delta_us div 1000000)"

text \<open>
  \<open>_get_container_uptime\<close>. Only KeyError and ValueError are caught; subtracting a naive
  datetime from the aware \<open>now\<close> raises TypeError, which leaves the function.
\<close>

definition get_container_uptime :: "env \<Rightarrow> container \<Rightarrow> exn + string" where
  "get_container_uptime e c =
     (if status c = ''running'' then
        (case started_at c of
           None \<Rightarrow> Inr ''Error''
         | Some started_at_str \<Rightarrow>
             (case fromisoformat e (replace_Z started_at_str) of
                None \<Rightarrow> Inr ''Error''
              | Some (Naive t) \<Rightarrow>
                  Inl (Raise TypeError ''can't subtract offset-naive and offset-aware datetimes'')
              | Some (Aware t) \<Rightarrow> Inr (format_uptime (total_seconds_int (now_us e - t)))))
      else Inr ''N/A'')"

text \<open>\<open>_get_container_ram_stats\<close>: one request to the runtime; any failure gives N/A.\<close>

definition get_container_ram_stats :: "env \<Rightarrow> monitor \<Rightarrow> container \<Rightarrow> string \<times> monitor" where
  "get_container_ram_stats e m c =
     (let m' = m\<lparr>runtime_calls := runtime_calls m + 1\<rparr>
      in case stats c of
           Inl x \<Rightarrow> (''N/A'', m')
         | Inr None \<Rightarrow> (''N/A'', m')
         | Inr (Some mem_usage_bytes) \<Rightarrow> (format_gb e mem_usage_bytes, m'))"

text \<open>The dictionary built for one container at lines 162 to 171.\<close>

record container_record =
  rec_id :: string
  rec_name :: string
  rec_status :: string
  rec_image :: string
  rec_ports :: string
  rec_uptime :: string
  rec_ram :: string
  rec_obj :: container

text \<open>Step 1 of the loop body: the first address that is set, N/A when there is none.\<close>

fun find_ip_addr :: "(string \<times> string option) list \<Rightarrow> string" where
  "find_ip_addr [] = ''N/A''"
| "find_ip_addr ((network_name, network_info) # rest) =
     (case network_info of
        Some ip \<Rightarrow> if truthy ip then ip else find_ip_addr rest
      | None \<Rightarrow> find_ip_addr rest)"

text \<open>Steps 2 to 4 for one item of the \<open>Ports\<close> dictionary.\<close>

definition port_entry ::
  "env \<Rightarrow> monitor \<Rightarrow> string \<Rightarrow> string \<times> string option list option \<Rightarrow> string \<times> monitor" where
  "port_entry e m ip_addr item =
     (let container_i_port = split_slash_first (fst item);
          host_port_num =
            (case snd item of
               Some (host_port_binding # others) \<Rightarrow>
                 (case host_port_binding of Some host_port \<Rightarrow> host_port | None \<Rightarrow> ''N/A'')
             | Some [] \<Rightarrow> ''N/A''
             | None \<Rightarrow> ''N/A'');
          found = (if host_port_num = ''N/A''
                   then get_host_port_from_iptables e m ip_addr container_i_port
                   else (host_port_num, m))
      in (if fst found \<noteq> ''N/A'' then fst found @ ''->'' @ container_i_port
          else container_i_port,
          snd found))"

fun port_loop ::
  "env \<Rightarrow> monitor \<Rightarrow> string \<Rightarrow> (string \<times> string option list option) list
     \<Rightarrow> string list \<times> monitor" where
  "port_loop e m ip_addr [] = ([], m)"
| "port_loop e m ip_addr (item # items) =
     (let entry = port_entry e m ip_addr item;
          more = port_loop e (snd entry) ip_addr items
      in (fst entry # fst more, snd more))"

text \<open>
  Lines 126 to 158 for one container: the \<open>ports\<close> string, N/A when the container
  declares no port.
\<close>

definition container_ports :: "env \<Rightarrow> monitor \<Rightarrow> container \<Rightarrow> string \<times> monitor" where
  "container_ports e m c =
     (let ip_addr = find_ip_addr (networks c)
      in if port_data c \<noteq> []
         then (let looped = port_loop e m ip_addr (port_data c)
               in (join '','' (fst looped), snd looped))
         else (''N/A'', m))"

text \<open>
  The body of the loop at lines 123 to 171 for one container: the record, or the exception
  that leaves the body. \<open>container.image\<close> asks the runtime each time it is read: once
  for the test of the tags and once for the value.
\<close>

definition build_record :: "env \<Rightarrow> monitor \<Rightarrow> container \<Rightarrow> (exn + container_record) \<times> monitor" where
  "build_record e m c =
     (let ported = container_ports e m c;
          ram = get_container_ram_stats e (snd ported) c;
          m2 = snd ram
      in case image c of
           Inl x \<Rightarrow> (Inl x, m2\<lparr>runtime_calls := runtime_calls m2 + 1\<rparr>)
         | Inr img \<Rightarrow>
             (let m3 = m2\<lparr>runtime_calls := runtime_calls m2 + 2\<rparr>
              in case get_container_uptime e c of
                   Inl x \<Rightarrow> (Inl x, m3)
                 | Inr uptime \<Rightarrow>
                     (Inr \<lparr> rec_id = short_id c, rec_name = name c, rec_status = status c,
                            rec_image = (case fst img of tag # tags \<Rightarrow> tag | [] \<Rightarrow> snd img),
                            rec_ports = fst ported, rec_uptime = uptime, rec_ram = fst ram,
                            rec_obj = c \<rparr>, m3)))"

fun build_all :: "env \<Rightarrow> monitor \<Rightarrow> container list \<Rightarrow> (exn + container_record list) \<times> monitor" where
  "build_all e m [] = (Inr [], m)"
| "build_all e m (c # cs) =
     (case build_record e m c of
        (Inl x, m1) \<Rightarrow> (Inl x, m1)
      | (Inr r, m1) \<Rightarrow>
          (case build_all e m1 cs of
             (Inl x, m2) \<Rightarrow> (Inl x, m2)
           | (Inr rs, m2) \<Rightarrow> (Inr (r # rs), m2)))"

text \<open>
  \<open>get_docker_containers\<close>. The third argument is what \<open>containers.list(all=True)\<close> gives
  at this call: the exception it raises, or the handles. \<open>sorted\<close> is a stable sort by
  the key, as \<open>sort_key\<close> is; strings compare character by character.
\<close>

definition get_docker_containers ::
  "env \<Rightarrow> monitor \<Rightarrow> exn + container list \<Rightarrow> container_record list \<times> monitor" where
  "get_docker_containers e m listed =
     (if truthy_opt (docker_error m) then ([], m)
      else
        (let m0 = m\<lparr>runtime_calls := runtime_calls m + 1\<rparr>
         in case listed of
              Inl x \<Rightarrow> ([], m0\<lparr>docker_error := Some (''Docker error: '' @ str_exn x)\<rparr>)
            | Inr cs \<Rightarrow>
                (case build_all e m0 cs of
                   (Inl x, m1) \<Rightarrow> ([], m1\<lparr>docker_error := Some (''Docker error: '' @ str_exn x)\<rparr>)
                 | (Inr containers, m1) \<Rightarrow> (sort_key rec_name containers, m1))))"

section \<open>Container actions\<close>

text \<open>
  \<open>_perform_action\<close>. \<open>reply\<close> is the exception of the runtime's lifecycle call, if it
  raises. The indexing at line 185 stands before the \<open>try\<close>, so its IndexError leaves the
  function. A handle has the methods start, stop and restart, so \<open>getattr\<close> finds them.
\<close>

definition perform_action ::
  "exn option \<Rightarrow> monitor \<Rightarrow> string \<Rightarrow> container_record list \<Rightarrow> string \<Rightarrow> exn + monitor" where
  "perform_action reply m action_name containers new_name =
     (if containers = [] \<or> truthy_opt (docker_error m) then Inr m
      else
        (case py_index containers (selected_index m) of
           Inl x \<Rightarrow> Inl x
         | Inr r \<Rightarrow>
             (let container_obj = rec_obj r;
                  called = m\<lparr>runtime_calls := runtime_calls m + 1\<rparr>;
                  failed = (\<lambda>x. called\<lparr>status_message := ''Error: '' @ str_exn x\<rparr>)
              in if action_name = ''rename'' then
                   (case reply of
                      Some x \<Rightarrow> Inr (failed x)
                    | None \<Rightarrow> Inr (called\<lparr>status_message :=
                        ''Successfully renamed '' @ name container_obj @ '' to '' @ new_name @ ''.''\<rparr>))
                 else if action_name = ''remove'' then
                   (case reply of
                      Some x \<Rightarrow> Inr (failed x)
                    | None \<Rightarrow> Inr (called\<lparr>status_message :=
                        ''Successfully removed container '' @ name container_obj @ ''.''\<rparr>))
                 else if action_name \<in> set [''start'', ''stop'', ''restart''] then
                   (case reply of
                      Some x \<Rightarrow> Inr (failed x)
                    | None \<Rightarrow> Inr (called\<lparr>status_message :=
                        ''Successfully sent '' @ [CHR 0x27] @ action_name @ [CHR 0x27]
                          @ '' command to '' @ name container_obj @ ''.''\<rparr>))
                 else Inr (m\<lparr>status_message :=
                        ''Action '' @ [CHR 0x27] @ action_name @ [CHR 0x27]
                          @ '' not available for this container.''\<rparr>))))"

text \<open>
  \<open>_confirm_action\<close> on the text the operator typed, stripped and in lower case.
\<close>

definition confirm_action :: "string \<Rightarrow> bool" where
  "confirm_action user_input = (user_input \<in> set [''yes'', ''y''])"

section \<open>Drawing\<close>

text \<open>
  What \<open>_draw_container_list\<close> does to the monitor: nothing when the error is set or the
  list is empty, else the two assignments to \<open>scroll_pos\<close> at lines 371 to 374.
\<close>

definition draw_container_list :: "monitor \<Rightarrow> int \<Rightarrow> container_record list \<Rightarrow> monitor" where
  "draw_container_list m height containers =
     (if truthy_opt (docker_error m) then m
      else if containers = [] then m
      else
        (let list_height = height - 12;
             m1 = (if selected_index m < scroll_pos m
                   then m\<lparr>scroll_pos := selected_index m\<rparr> else m);
             m2 = (if selected_index m1 \<ge> scroll_pos m1 + list_height
                   then m1\<lparr>scroll_pos := selected_index m1 - list_height + 1\<rparr> else m1)
         in m2))"

text \<open>\<open>_draw_footer\<close>: the status line painted, and the message cleared at line 456.\<close>

definition draw_footer :: "monitor \<Rightarrow> monitor" where
  "draw_footer m =
     (if truthy (status_message m) then
        (let m1 = m\<lparr>painted := painted m @ [status_message m]\<rparr>
         in if contains ''Successfully'' (status_message m1) \<or> contains ''Error'' (status_message m1)
            then m1\<lparr>status_message := []\<rparr> else m1)
      else m)"

text \<open>The frame drawn at lines 506 to 509; header and system bars read no field.\<close>

definition draw_frame :: "monitor \<Rightarrow> int \<Rightarrow> container_record list \<Rightarrow> monitor" where
  "draw_frame m height containers = draw_footer (draw_container_list m height containers)"

section \<open>The main loop\<close>

text \<open>
  One turn of the loop reads the height of the screen and a key (\<open>-1\<close> when the wait
  times out). The tick also holds what the outside would answer during this turn: the
  surroundings, the listing of the runtime, the reply to a lifecycle call, and the texts
  typed into the confirmation and the rename windows (stripped, the first in lower case).
\<close>

record tick =
  scr_height :: int
  key :: int
  world :: env
  listing :: "exn + container list"
  action_reply :: "exn option"
  confirm_input :: string
  name_input :: string

definition KEY_UP :: int where
  "KEY_UP = 259"

definition KEY_DOWN :: int where
  "KEY_DOWN = 258"

definition ord :: "char \<Rightarrow> int" where
  "ord c = of_char c"

datatype outcome =
  Running monitor "container_record list"
  | Quit monitor
  | Crashed exn monitor

fun monitor_of :: "outcome \<Rightarrow> monitor" where
  "monitor_of (Running m cs) = m"
| "monitor_of (Quit m) = m"
| "monitor_of (Crashed x m) = m"

text \<open>
  A call of \<open>_perform_action\<close> inside the loop: the list is kept, and an exception of the
  call leaves the loop with the monitor as it was before the call.
\<close>

definition after_action ::
  "monitor \<Rightarrow> container_record list \<Rightarrow> exn + monitor
     \<Rightarrow> exn \<times> monitor + (monitor \<times> container_record list) option" where
  "after_action m containers res =
     (case res of Inl x \<Rightarrow> Inl (x, m) | Inr m' \<Rightarrow> Inr (Some (m', containers)))"

text \<open>
  The chain of \<open>if\<close> and \<open>elif\<close> at lines 475 to 501: the monitor and the list after the
  key, \<open>None\<close> for the \<open>break\<close>, or the exception that leaves the loop.
\<close>

definition handle_key ::
  "tick \<Rightarrow> monitor \<Rightarrow> container_record list
     \<Rightarrow> exn \<times> monitor + (monitor \<times> container_record list) option" where
  "handle_key t m containers =
     (if key t \<in> set [ord CHR ''q'', ord CHR ''Q''] then Inr None
      else if key t = KEY_UP then
        Inr (Some (m\<lparr>selected_index := max 0 (selected_index m - 1)\<rparr>, containers))
      else if key t = KEY_DOWN \<and> containers \<noteq> [] then
        Inr (Some (m\<lparr>selected_index := min (int (length containers) - 1) (selected_index m + 1)\<rparr>,
                   containers))
      else if key t \<in> set [ord CHR ''u'', ord CHR ''U''] then
        (let got = get_docker_containers (world t) m (listing t)
         in Inr (Some ((snd got)\<lparr>status_message := ''Container list updated.''\<rparr>, fst got)))
      else if key t \<in> set [ord CHR ''s'', ord CHR ''S''] then
        after_action m containers (perform_action (action_reply t) m ''start'' containers [])
      else if key t \<in> set [ord CHR ''x'', ord CHR ''X''] \<and> containers \<noteq> [] then
        (let m1 = draw_footer
                    (m\<lparr>status_message := ''Stopping container, this may take a minute...''\<rparr>)
         in after_action m1 containers (perform_action (action_reply t) m1 ''stop'' containers []))
      else if key t \<in> set [ord CHR ''r'', ord CHR ''R''] then
        after_action m containers (perform_action (action_reply t) m ''restart'' containers [])
      else if key t \<in> set [ord CHR ''d'', ord CHR ''D''] \<and> containers \<noteq> [] then
        (case py_index containers (selected_index m) of
           Inl x \<Rightarrow> Inl (x, m)
         | Inr r \<Rightarrow>
             if confirm_action (confirm_input t)
             then after_action m containers
                    (perform_action (action_reply t) m ''remove'' containers [])
             else Inr (Some (m, containers)))
      else if key t \<in> set [ord CHR ''n'', ord CHR ''N''] \<and> containers \<noteq> [] then
        (case py_index containers (selected_index m) of
           Inl x \<Rightarrow> Inl (x, m)
         | Inr r \<Rightarrow>
             if truthy (name_input t)
             then after_action m containers
                    (perform_action (action_reply t) m ''rename'' containers (name_input t))
             else Inr (Some (m, containers)))
      else Inr (Some (m, containers)))"

text \<open>One turn of \<open>while True\<close>: the key, the refresh on a timeout, the frame.\<close>

definition loop_body :: "tick \<Rightarrow> monitor \<Rightarrow> container_record list \<Rightarrow> outcome" where
  "loop_body t m containers =
     (case handle_key t m containers of
        Inl (x, m') \<Rightarrow> Crashed x m'
      | Inr None \<Rightarrow> Quit m
      | Inr (Some (m1, containers1)) \<Rightarrow>
          (let got = (if key t = - 1 then get_docker_containers (world t) m1 (listing t)
                      else (containers1, m1))
           in Running (draw_frame (snd got) (scr_height t) (fst got)) (fst got)))"

text \<open>
  The loop over the turns that the list gives; \<open>Running\<close> is the state reached when the
  turns are used up and the loop goes on.
\<close>

fun run_loop :: "monitor \<Rightarrow> container_record list \<Rightarrow> tick list \<Rightarrow> outcome" where
  "run_loop m containers [] = Running m containers"
| "run_loop m containers (t # ts) =
     (case loop_body t m containers of
        Running m' containers' \<Rightarrow> run_loop m' containers' ts
      | Quit m' \<Rightarrow> Quit m'
      | Crashed x m' \<Rightarrow> Crashed x m')"

text \<open>\<open>_app_loop\<close>: the first listing at line 468, then the loop.\<close>

definition app_loop :: "env \<Rightarrow> exn + container list \<Rightarrow> monitor \<Rightarrow> tick list \<Rightarrow> outcome" where
  "app_loop e listed m ts =
     (let got = get_docker_containers e m listed in run_loop (snd got) (fst got) ts)"

section \<open>The uptime rule in the words of the specification\<close>

text \<open>
  The specification's rule for the uptime string: the days, hours and minutes of the
  elapsed whole seconds, in this order, each unit that is zero left out, and the seconds
  alone when nothing else is left.
\<close>

definition spec_uptime :: "int \<Rightarrow> string" where
  "spec_uptime secs =
     (let units = [(secs div 86400, ''d''), (secs div 3600 mod 24, ''h''), (secs div 60 mod 60, ''m'')];
          emitted = filter (\<lambda>(v, u). v \<noteq> 0) units
      in if emitted = [] then str_int (secs mod 60) @ ''s''
         else concat (map (\<lambda>(v, u). str_int v @ u) emitted))"

text \<open>The two rules on units that are already split, for the comparison.\<close>

definition render_parts :: "int \<Rightarrow> int \<Rightarrow> int \<Rightarrow> int \<Rightarrow> string" where
  "render_parts days hours minutes seconds =
     (let parts0 = [];
          parts1 = (if days > 0 then parts0 @ [str_int days @ ''d''] else parts0);
          parts2 = (if hours > 0 then parts1 @ [str_int hours @ ''h''] else parts1);
          parts3 = (if minutes > 0 then parts2 @ [str_int minutes @ ''m''] else parts2);
          parts4 = (if parts3 = [] \<and> seconds \<ge> 0 then parts3 @ [str_int seconds @ ''s'']
                    else parts3)
      in concat parts4)"

definition spec_parts :: "int \<Rightarrow> int \<Rightarrow> int \<Rightarrow> int \<Rightarrow> string" where
  "spec_parts d h m sec =
     (let units = [(d, ''d''), (h, ''h''), (m, ''m'')];
          emitted = filter (\<lambda>(v, u). v \<noteq> 0) units
      in if emitted = [] then str_int sec @ ''s''
         else concat (map (\<lambda>(v, u). str_int v @ u) emitted))"

section \<open>Example surroundings and containers\<close>

text \<open>
  A running container \<open>web-1\<close>: it declares port 80 with no host port, and its address on
  the bridge network is 172.17.0.5.
\<close>

definition web_1 :: container where
  "web_1 =
     \<lparr> short_id = ''3f2a9c1b7d10'', name = ''web-1'', status = ''running'',
       image = Inr ([''nginx:latest''], ''sha256:0a1b2c3d4e''),
       networks = [(''bridge'', Some ''172.17.0.5'')],
       port_data = [(''80/tcp'', None)],
       started_at = Some ''2024-01-01T00:00:00Z'',
       stats = Inr (Some 52428800) \<rparr>"

text \<open>
  A host whose clock is one second behind the start of the container, which parses to an
  instant with the offset of UTC. No NAT rule matches any query.
\<close>

definition env_behind :: env where
  "env_behind =
     \<lparr> fromisoformat = (\<lambda>s. if s = ''2024-01-01T00:00:00+00:00''
                              then Some (Aware 1704067200000000) else None), now_us = 1704067199000000,
       run = (\<lambda>cmd. Inl (Raise CalledProcessError ''exit status 1'')),
       format_gb = (\<lambda>b. ''0.05G'') \<rparr>"

text \<open>A host whose clock is 3665 seconds and a half after the start of the container.\<close>

definition env_later :: env where
  "env_later =
     \<lparr> fromisoformat = (\<lambda>s. if s = ''2024-01-01T00:00:00+00:00''
                              then Some (Aware 1704067200000000) else None), now_us = 1704070865500000,
       run = (\<lambda>cmd. Inl (Raise CalledProcessError ''exit status 1'')),
       format_gb = (\<lambda>b. ''0.05G'') \<rparr>"

text \<open>
  A host where the query selects a rule that has no port clause, and a host where the
  query cannot be started at all.
\<close>

definition env_garbled :: env where
  "env_garbled =
     \<lparr> fromisoformat = (\<lambda>s. if s = ''2024-01-01T00:00:00+00:00''
                              then Some (Aware 1704067200000000) else None), now_us = 1704070865500000,
       run = (\<lambda>cmd. Inr ''-A DOCKER -d 10.0.0.1/32 -j DNAT --to-destination 172.17.0.5:80''),
       format_gb = (\<lambda>b. ''0.05G'') \<rparr>"

definition env_broken :: env where
  "env_broken =
     \<lparr> fromisoformat = (\<lambda>s. if s = ''2024-01-01T00:00:00+00:00''
                              then Some (Aware 1704067200000000) else None), now_us = 1704070865500000,
       run = (\<lambda>cmd. Inl (Raise OSError ''[Errno 12] Cannot allocate memory'')),
       format_gb = (\<lambda>b. ''0.05G'') \<rparr>"

text \<open>The fields of the monitor that data fetching never writes.\<close>

definition fields :: "monitor \<Rightarrow> string option \<times> int \<times> int \<times> string \<times> string list" where
  "fields m = (docker_error m, selected_index m, scroll_pos m, status_message m, painted m)"

text \<open>
  A record that holds, field by field, what the sub-steps give for its own container.
\<close>

definition record_for :: "env \<Rightarrow> monitor \<Rightarrow> container_record \<Rightarrow> bool" where
  "record_for e m r =
     (rec_id r = short_id (rec_obj r) \<and> rec_name r = name (rec_obj r)
      \<and> rec_status r = status (rec_obj r)
      \<and> (\<exists>img. image (rec_obj r) = Inr img
             \<and> rec_image r = (case fst img of tag # tags \<Rightarrow> tag | [] \<Rightarrow> snd img))
      \<and> rec_ports r = fst (container_ports e m (rec_obj r))
      \<and> get_container_uptime e (rec_obj r) = Inr (rec_uptime r)
      \<and> rec_ram r = fst (get_container_ram_stats e m (rec_obj r)))"

text \<open>
  The surroundings of the scenario: the NAT table maps host port 54772 to 172.17.0.5:80,
  and the clock is 3665 seconds and a half after the start of the container.
\<close>

definition env_nat :: env where
  "env_nat =
     \<lparr> fromisoformat = (\<lambda>s. if s = ''2024-01-01T00:00:00+00:00''
                              then Some (Aware 1704067200000000) else None), now_us = 1704070865500000,
       run = (\<lambda>cmd. if cmd = iptables_command ''172.17.0.5'' ''80''
                then Inr ''-A DOCKER ! -i docker0 -p tcp -m tcp --dport 54772 -j DNAT --to-destination 172.17.0.5:80''
                else Inl (Raise CalledProcessError ''exit status 1'')),
       format_gb = (\<lambda>b. ''0.05G'') \<rparr>"

text \<open>
  A stopped container with no port and no address, whose statistics are refused, and a
  running one whose start is written without an offset.
\<close>

definition db_1 :: container where
  "db_1 =
     \<lparr> short_id = ''9e8d7c6b5a40'', name = ''db-1'', status = ''exited'',
       image = Inr ([], ''sha256:5f6e7d8c9b''),
       networks = [(''bridge'', Some [])],
       port_data = [],
       started_at = None,
       stats = Inl (Raise DockerException ''container is not running'') \<rparr>"

definition cache_1 :: container where
  "cache_1 =
     \<lparr> short_id = ''77aa41c0de12'', name = ''cache-1'', status = ''running'',
       image = Inr ([''redis:7''], ''sha256:1c2d3e4f5a''),
       networks = [(''bridge'', Some ''172.17.0.6'')],
       port_data = [(''6379/tcp'', Some [Some ''6379''])],
       started_at = Some ''2024-01-01T00:00:00'',
       stats = Inr None \<rparr>"


text \<open>A parser that reads a start without an offset as a naive datetime.\<close>

definition env_naive :: env where
  "env_naive =
     \<lparr> fromisoformat = (\<lambda>s. if s = ''2024-01-01T00:00:00'' then Some (Naive 1704067200000000)
                              else if s = ''2024-01-01T00:00:00+00:00''
                              then Some (Aware 1704067200000000) else None),
       now_us = 1704070865500000,
       run = (\<lambda>cmd. Inl (Raise CalledProcessError ''exit status 1'')),
       format_gb = (\<lambda>b. ''0.05G'') \<rparr>"

text \<open>The list and the exception of an outcome.\<close>

fun inventory_of :: "outcome \<Rightarrow> container_record list" where
  "inventory_of (Running m cs) = cs"
| "inventory_of (Quit m) = []"
| "inventory_of (Crashed x m) = []"

fun raised :: "outcome \<Rightarrow> exn option" where
  "raised (Running m cs) = None"
| "raised (Quit m) = None"
| "raised (Crashed x m) = Some x"

text \<open>
  A turn on a screen of 24 lines with the given key and listing, in the surroundings of
  the scenario; lifecycle calls succeed and nothing is typed into the windows.
\<close>

definition turn :: "int \<Rightarrow> exn + container list \<Rightarrow> tick" where
  "turn k listed =
     \<lparr> scr_height = 24, key = k, world = env_nat, listing = listed,
       action_reply = None, confirm_input = [], name_input = [] \<rparr>"

section \<open>Uptime\<close>

lemma hours_eq: "(s::int) mod 86400 div 3600 = s div 3600 mod 24"
proof -
  have "s mod (3600 * 24) = 3600 * (s div 3600 mod 24) + s mod 3600"
    by (rule zmod_zmult2_eq) simp
  then have "s mod 86400 = s mod 3600 + (s div 3600 mod 24) * 3600" by simp
  then have "s mod 86400 div 3600 = (s mod 3600 + (s div 3600 mod 24) * 3600) div 3600" by simp
  also have "\<dots> = s div 3600 mod 24" by simp
  finally show ?thesis .
qed

lemma mod_mod_3600: "(s::int) mod 86400 mod 3600 = s mod 3600"
  by (rule mod_mod_cancel) simp

lemma minutes_eq: "(s::int) mod 3600 div 60 = s div 60 mod 60"
proof -
  have "s mod (60 * 60) = 60 * (s div 60 mod 60) + s mod 60"
    by (rule zmod_zmult2_eq) simp
  then have "s mod 3600 = s mod 60 + (s div 60 mod 60) * 60" by simp
  then have "s mod 3600 div 60 = (s mod 60 + (s div 60 mod 60) * 60) div 60" by simp
  also have "\<dots> = s div 60 mod 60" by simp
  finally show ?thesis .
qed

lemma seconds_eq: "(s::int) mod 3600 mod 60 = s mod 60"
  by (rule mod_mod_cancel) simp

lemma format_uptime_parts:
  "format_uptime s = render_parts (s div 86400) (s div 3600 mod 24) (s div 60 mod 60) (s mod 60)"
proof -
  have "format_uptime s = render_parts (s div 86400) (s mod 86400 div 3600)
          (s mod 86400 mod 3600 div 60) (s mod 86400 mod 3600 mod 60)"
    by (simp only: format_uptime_def render_parts_def Let_def)
  then show ?thesis
    by (simp only: hours_eq mod_mod_3600 minutes_eq seconds_eq)
qed

lemma spec_uptime_parts:
  "spec_uptime s = spec_parts (s div 86400) (s div 3600 mod 24) (s div 60 mod 60) (s mod 60)"
  by (simp only: spec_uptime_def spec_parts_def Let_def)

lemma render_parts_spec:
  assumes "0 \<le> d" "0 \<le> h" "0 \<le> m" "0 \<le> sec"
  shows "render_parts d h m sec = spec_parts d h m sec"
  using assms
  by (cases "d = 0"; cases "h = 0"; cases "m = 0"; simp add: render_parts_def spec_parts_def)

lemma format_uptime_spec: "0 \<le> s \<Longrightarrow> format_uptime s = spec_uptime s"
proof -
  assume s: "0 \<le> s"
  have d: "0 \<le> s div 86400" using s by simp
  have h: "0 \<le> s div 3600 mod 24" by simp
  have m: "0 \<le> s div 60 mod 60" by simp
  have sec: "0 \<le> s mod 60" by simp
  show ?thesis
    by (simp only: format_uptime_parts spec_uptime_parts render_parts_spec [OF d h m sec])
qed

lemma total_seconds_int_nonneg: "0 \<le> d \<Longrightarrow> 0 \<le> total_seconds_int d"
  by (simp add: total_seconds_int_def)

lemma uptime_of_running:
  assumes "status c = ''running''" and "started_at c = Some ts"
    and "fromisoformat e (replace_Z ts) = Some (Aware t)"
  shows "get_container_uptime e c = Inr (format_uptime (total_seconds_int (now_us e - t)))"
  using assms by (simp add: get_container_uptime_def)

lemma uptime_of_other: "status c \<noteq> ''running'' \<Longrightarrow> get_container_uptime e c = Inr ''N/A''"
  by (simp add: get_container_uptime_def)

lemmas eval_str = str_int_def str_nat.simps digit_char_def

text \<open>
  C1, as amended. For a running container whose start timestamp parses to an instant with
  an offset that is not later than the clock, the uptime is the string of the
  specification's rule at the elapsed whole seconds; 3665 seconds give 1h1m, 59 seconds
  59s and 0 seconds 0s; a container that is not running reports N/A.
\<close>

theorem uptime_rendering:
  "(status c = ''running'' \<and> started_at c = Some ts \<and>
      fromisoformat e (replace_Z ts) = Some (Aware t) \<and> t \<le> now_us e \<longrightarrow>
      get_container_uptime e c = Inr (spec_uptime (total_seconds_int (now_us e - t))))
   \<and> format_uptime 3665 = ''1h1m'' \<and> format_uptime 59 = ''59s'' \<and> format_uptime 0 = ''0s''
   \<and> (status c \<noteq> ''running'' \<longrightarrow> get_container_uptime e c = Inr ''N/A'')"
proof (intro conjI impI)
  assume h: "status c = ''running'' \<and> started_at c = Some ts \<and>
      fromisoformat e (replace_Z ts) = Some (Aware t) \<and> t \<le> now_us e"
  then have "0 \<le> total_seconds_int (now_us e - t)"
    by (intro total_seconds_int_nonneg) simp
  then have "format_uptime (total_seconds_int (now_us e - t))
      = spec_uptime (total_seconds_int (now_us e - t))"
    by (rule format_uptime_spec)
  with h show "get_container_uptime e c = Inr (spec_uptime (total_seconds_int (now_us e - t)))"
    by (simp add: uptime_of_running)
next
  show "format_uptime 3665 = ''1h1m''"
    by (simp add: format_uptime_def eval_str)
next
  show "format_uptime 59 = ''59s''"
    by (simp add: format_uptime_def eval_str)
next
  show "format_uptime 0 = ''0s''"
    by (simp add: format_uptime_def eval_str)
next
  assume "status c \<noteq> ''running''"
  then show "get_container_uptime e c = Inr ''N/A''"
    by (rule uptime_of_other)
qed

theorem uptime_rendering_witness:
  "status web_1 = ''running'' \<and> started_at web_1 = Some ''2024-01-01T00:00:00Z'' \<and>
   fromisoformat env_later (replace_Z ''2024-01-01T00:00:00Z'') = Some (Aware 1704067200000000) \<and>
   1704067200000000 \<le> now_us env_later \<and>
   get_container_uptime env_later web_1 = Inr ''1h1m'' \<and>
   get_container_uptime env_later (web_1\<lparr>status := ''exited''\<rparr>) = Inr ''N/A''"
proof -
  have pre: "status web_1 = ''running'' \<and> started_at web_1 = Some ''2024-01-01T00:00:00Z'' \<and>
      fromisoformat env_later (replace_Z ''2024-01-01T00:00:00Z'') = Some (Aware 1704067200000000) \<and>
      1704067200000000 \<le> now_us env_later"
    by (simp add: web_1_def env_later_def replace_Z_def)
  have secs: "total_seconds_int (now_us env_later - 1704067200000000) = 3665"
    by (simp add: env_later_def total_seconds_int_def)
  have spec: "spec_uptime 3665 = ''1h1m''"
    by (simp add: spec_uptime_def eval_str)
  have other: "status (web_1\<lparr>status := ''exited''\<rparr>) \<noteq> ''running''"
    by simp
  from uptime_rendering [of web_1 "''2024-01-01T00:00:00Z''" env_later 1704067200000000] pre secs spec
  have a: "get_container_uptime env_later web_1 = Inr ''1h1m''"
    by simp
  from uptime_rendering [of "web_1\<lparr>status := ''exited''\<rparr>" ts env_later t] other
  have b: "get_container_uptime env_later (web_1\<lparr>status := ''exited''\<rparr>) = Inr ''N/A''"
    by blast
  from pre a b show ?thesis by simp
qed

text \<open>
  The claim as written, for every parseable start timestamp, fails when the start is
  later than the clock: one second ahead, the code prints 23h59m, the days being minus
  one, where the rule gives a string with the day unit.
\<close>

theorem uptime_rendering_counterexample:
  "status web_1 = ''running'' \<and>
   fromisoformat env_behind (replace_Z ''2024-01-01T00:00:00Z'') = Some (Aware 1704067200000000) \<and>
   total_seconds_int (now_us env_behind - 1704067200000000) = - 1 \<and>
   get_container_uptime env_behind web_1 = Inr ''23h59m'' \<and>
   spec_uptime (- 1) = ''-1d23h59m''"
proof -
  have "format_uptime (- 1) = ''23h59m''"
    by (simp add: format_uptime_def eval_str)
  moreover have "spec_uptime (- 1) = ''-1d23h59m''"
    by (simp add: spec_uptime_def eval_str)
  moreover have "total_seconds_int (now_us env_behind - 1704067200000000) = - 1"
    by (simp add: env_behind_def total_seconds_int_def)
  ultimately show ?thesis
    by (simp add: get_container_uptime_def web_1_def env_behind_def replace_Z_def)
qed

section \<open>The NAT fallback resolver\<close>

lemma dport_at_digits: "dport_at s = Some p \<Longrightarrow> p \<noteq> [] \<and> (\<forall>c\<in>set p. is_digit c)"
  by (auto simp: dport_at_def Let_def split: if_splits dest: set_takeWhileD)

lemma re_search_dport_digits:
  "re_search_dport s = Some p \<Longrightarrow> p \<noteq> [] \<and> (\<forall>c\<in>set p. is_digit c)"
proof (induction s)
  case Nil
  then show ?case by simp
next
  case (Cons c cs)
  then show ?case
    by (cases "dport_at (c # cs)") (auto dest: dport_at_digits)
qed

lemma not_digit_E: "\<not> is_digit CHR ''E''"
  by (simp add: is_digit_def)

lemma not_digit_N: "\<not> is_digit CHR ''N''"
  by (simp add: is_digit_def)

lemma re_search_dport_not_sentinel:
  assumes "re_search_dport s = Some p"
  shows "p \<noteq> ''Error''" and "p \<noteq> ''N/A''"
proof -
  from assms have d: "\<forall>c\<in>set p. is_digit c"
    by (simp add: re_search_dport_digits)
  show "p \<noteq> ''Error''"
  proof
    assume "p = ''Error''"
    with d have "is_digit CHR ''E''" by simp
    with not_digit_E show False by simp
  qed
  show "p \<noteq> ''N/A''"
  proof
    assume "p = ''N/A''"
    with d have "is_digit CHR ''N''" by simp
    with not_digit_N show False by simp
  qed
qed

lemma iptables_empty:
  "container_ip = [] \<or> container_i_port = [] \<Longrightarrow>
     get_host_port_from_iptables e m container_ip container_i_port = (''N/A'', m)"
  by (auto simp: get_host_port_from_iptables_def truthy_def)

lemma iptables_commands:
  "container_ip \<noteq> [] \<Longrightarrow> container_i_port \<noteq> [] \<Longrightarrow>
     commands (snd (get_host_port_from_iptables e m container_ip container_i_port))
       = commands m @ [iptables_command container_ip container_i_port]"
  by (simp add: get_host_port_from_iptables_def truthy_def Let_def split: sum.splits option.splits)

lemma iptables_output:
  assumes "container_ip \<noteq> []" and "container_i_port \<noteq> []"
    and "run e (iptables_command container_ip container_i_port) = Inr out"
  shows "fst (get_host_port_from_iptables e m container_ip container_i_port)
       = (case re_search_dport out of Some p \<Rightarrow> p | None \<Rightarrow> ''N/A'')"
  using assms
  by (cases out) (simp_all add: get_host_port_from_iptables_def truthy_def Let_def split: option.splits)

lemma iptables_raise:
  assumes "container_ip \<noteq> []" and "container_i_port \<noteq> []"
    and "run e (iptables_command container_ip container_i_port) = Inl x"
  shows "fst (get_host_port_from_iptables e m container_ip container_i_port)
       = (if exn_class_of x = CalledProcessError then ''N/A'' else ''Error'')"
  using assms
  by (simp add: get_host_port_from_iptables_def truthy_def Let_def)

text \<open>
  C2, as amended. If the address or the port is empty the resolver returns N/A and runs no
  command. Otherwise it runs the one query for this address and port; it returns Error
  exactly when running the query raises an exception other than CalledProcessError; a
  non-zero exit status of the pipeline (no line selected) gives N/A; output gives the
  first port clause in it, and N/A when it has none.
\<close>

theorem nat_fallback_results:
  "(container_ip = [] \<or> container_i_port = [] \<longrightarrow>
      get_host_port_from_iptables e m container_ip container_i_port = (''N/A'', m))
   \<and> (container_ip \<noteq> [] \<and> container_i_port \<noteq> [] \<longrightarrow>
      commands (snd (get_host_port_from_iptables e m container_ip container_i_port))
        = commands m @ [iptables_command container_ip container_i_port]
      \<and> (fst (get_host_port_from_iptables e m container_ip container_i_port) = ''Error''
           \<longleftrightarrow> (\<exists>x. run e (iptables_command container_ip container_i_port) = Inl x
                    \<and> exn_class_of x \<noteq> CalledProcessError))
      \<and> ((\<exists>x. run e (iptables_command container_ip container_i_port) = Inl x
               \<and> exn_class_of x = CalledProcessError)
           \<longrightarrow> fst (get_host_port_from_iptables e m container_ip container_i_port) = ''N/A'')
      \<and> (\<forall>out. run e (iptables_command container_ip container_i_port) = Inr out \<longrightarrow>
            fst (get_host_port_from_iptables e m container_ip container_i_port)
              = (case re_search_dport out of Some p \<Rightarrow> p | None \<Rightarrow> ''N/A'')))"
proof (intro conjI impI allI)
  assume "container_ip = [] \<or> container_i_port = []"
  then show "get_host_port_from_iptables e m container_ip container_i_port = (''N/A'', m)"
    by (rule iptables_empty)
next
  assume ne: "container_ip \<noteq> [] \<and> container_i_port \<noteq> []"
  then show "commands (snd (get_host_port_from_iptables e m container_ip container_i_port))
        = commands m @ [iptables_command container_ip container_i_port]"
    by (simp add: iptables_commands)
  show "fst (get_host_port_from_iptables e m container_ip container_i_port) = ''Error''
           \<longleftrightarrow> (\<exists>x. run e (iptables_command container_ip container_i_port) = Inl x
                    \<and> exn_class_of x \<noteq> CalledProcessError)"
  proof (cases "run e (iptables_command container_ip container_i_port)")
    case (Inl x)
    with ne show ?thesis by (simp add: iptables_raise)
  next
    case (Inr out)
    with ne show ?thesis
      by (auto simp: iptables_output split: option.splits dest: re_search_dport_not_sentinel)
  qed
  {
    assume "\<exists>x. run e (iptables_command container_ip container_i_port) = Inl x
               \<and> exn_class_of x = CalledProcessError"
    with ne show "fst (get_host_port_from_iptables e m container_ip container_i_port) = ''N/A''"
      by (auto simp: iptables_raise)
  }
  {
    fix out assume "run e (iptables_command container_ip container_i_port) = Inr out"
    with ne show "fst (get_host_port_from_iptables e m container_ip container_i_port)
              = (case re_search_dport out of Some p \<Rightarrow> p | None \<Rightarrow> ''N/A'')"
      by (simp add: iptables_output)
  }
qed

theorem nat_fallback_results_witness:
  "get_host_port_from_iptables env_broken (init None) [] ''80'' = (''N/A'', init None)
   \<and> commands (snd (get_host_port_from_iptables env_broken (init None) ''172.17.0.5'' ''80''))
       = [iptables_command ''172.17.0.5'' ''80'']
   \<and> fst (get_host_port_from_iptables env_broken (init None) ''172.17.0.5'' ''80'') = ''Error''
   \<and> fst (get_host_port_from_iptables env_behind (init None) ''172.17.0.5'' ''80'') = ''N/A''
   \<and> fst (get_host_port_from_iptables env_garbled (init None) ''172.17.0.5'' ''80'') = ''N/A''"
proof -
  have ne: "''172.17.0.5'' \<noteq> [] \<and> ''80'' \<noteq> []" by simp
  have r1: "\<exists>x. run env_broken (iptables_command ''172.17.0.5'' ''80'') = Inl x
              \<and> exn_class_of x \<noteq> CalledProcessError"
    by (simp add: env_broken_def)
  have r2: "\<exists>x. run env_behind (iptables_command ''172.17.0.5'' ''80'') = Inl x
              \<and> exn_class_of x = CalledProcessError"
    by (simp add: env_behind_def)
  have r3: "run env_garbled (iptables_command ''172.17.0.5'' ''80'')
              = Inr ''-A DOCKER -d 10.0.0.1/32 -j DNAT --to-destination 172.17.0.5:80''"
    by (simp add: env_garbled_def)
  have r4: "re_search_dport ''-A DOCKER -d 10.0.0.1/32 -j DNAT --to-destination 172.17.0.5:80'' = None"
    by code_simp
  have c0: "commands (init None) = []" by (simp add: init_def)
  from nat_fallback_results [of "[]" "''80''" env_broken "init None"]
  have a: "get_host_port_from_iptables env_broken (init None) [] ''80'' = (''N/A'', init None)"
    by simp
  from nat_fallback_results [of "''172.17.0.5''" "''80''" env_broken "init None"] ne r1 c0
  have b: "commands (snd (get_host_port_from_iptables env_broken (init None) ''172.17.0.5'' ''80''))
       = [iptables_command ''172.17.0.5'' ''80'']
     \<and> fst (get_host_port_from_iptables env_broken (init None) ''172.17.0.5'' ''80'') = ''Error''"
    by simp
  from nat_fallback_results [of "''172.17.0.5''" "''80''" env_behind "init None"] ne r2
  have c: "fst (get_host_port_from_iptables env_behind (init None) ''172.17.0.5'' ''80'') = ''N/A''"
    by blast
  from nat_fallback_results [of "''172.17.0.5''" "''80''" env_garbled "init None"] ne r3 r4
  have d: "fst (get_host_port_from_iptables env_garbled (init None) ''172.17.0.5'' ''80'') = ''N/A''"
    by simp
  from a b c d show ?thesis by simp
qed

text \<open>
  The claim as written, Error for malformed output, fails: a selected rule without a port
  clause gives N/A.
\<close>

theorem nat_fallback_counterexample:
  "run env_garbled (iptables_command ''172.17.0.5'' ''80'')
     = Inr ''-A DOCKER -d 10.0.0.1/32 -j DNAT --to-destination 172.17.0.5:80''
   \<and> re_search_dport ''-A DOCKER -d 10.0.0.1/32 -j DNAT --to-destination 172.17.0.5:80'' = None
   \<and> fst (get_host_port_from_iptables env_garbled (init None) ''172.17.0.5'' ''80'') = ''N/A''
   \<and> fst (get_host_port_from_iptables env_garbled (init None) ''172.17.0.5'' ''80'') \<noteq> ''Error''"
  by code_simp

section \<open>What data fetching leaves alone\<close>

lemma iptables_fst_indep:
  "fst (get_host_port_from_iptables e m ip p) = fst (get_host_port_from_iptables e m' ip p)"
  by (simp add: get_host_port_from_iptables_def Let_def split: sum.splits option.splits)

lemma iptables_fields: "fields (snd (get_host_port_from_iptables e m ip p)) = fields m"
  by (simp add: get_host_port_from_iptables_def Let_def fields_def split: sum.splits option.splits)

lemma port_entry_fst_indep: "fst (port_entry e m ip item) = fst (port_entry e m' ip item)"
  using iptables_fst_indep [of e m ip "split_slash_first (fst item)" m']
  by (simp add: port_entry_def Let_def)

lemma port_entry_fields: "fields (snd (port_entry e m ip item)) = fields m"
  by (simp add: port_entry_def Let_def iptables_fields)

lemma port_loop_fst:
  "fst (port_loop e m ip items) = map (\<lambda>item. fst (port_entry e m0 ip item)) items"
proof (induction items arbitrary: m)
  case Nil
  then show ?case by simp
next
  case (Cons item items)
  then show ?case
    using port_entry_fst_indep [of e m ip item m0] by (simp add: Let_def)
qed

lemma port_loop_fields: "fields (snd (port_loop e m ip items)) = fields m"
  by (induction items arbitrary: m) (simp_all add: Let_def port_entry_fields)

lemma container_ports_fst:
  "fst (container_ports e m c) =
     (if port_data c = [] then ''N/A''
      else join '','' (map (\<lambda>item. fst (port_entry e m0 (find_ip_addr (networks c)) item))
                         (port_data c)))"
  using port_loop_fst [of e m "find_ip_addr (networks c)" "port_data c" m0]
  by (simp add: container_ports_def Let_def)

lemma container_ports_fst_indep: "fst (container_ports e m c) = fst (container_ports e m' c)"
  by (simp add: container_ports_fst [of e m c m'] container_ports_fst [of e m' c m'])

lemma container_ports_fields: "fields (snd (container_ports e m c)) = fields m"
  by (simp add: container_ports_def Let_def port_loop_fields)

lemma ram_fst_indep:
  "fst (get_container_ram_stats e m c) = fst (get_container_ram_stats e m' c)"
  by (simp add: get_container_ram_stats_def Let_def split: sum.splits option.splits)

lemma ram_fields: "fields (snd (get_container_ram_stats e m c)) = fields m"
  by (simp add: get_container_ram_stats_def Let_def fields_def split: sum.splits option.splits)

lemma fields_runtime_calls [simp]: "fields (m\<lparr>runtime_calls := n\<rparr>) = fields m"
  by (simp add: fields_def)

lemma build_record_fields: "fields (snd (build_record e m c)) = fields m"
  by (simp add: build_record_def Let_def ram_fields container_ports_fields
      split: sum.splits)

lemma build_record_Inr:
  assumes "fst (build_record e m c) = Inr r"
  shows "rec_obj r = c \<and> record_for e m0 r"
proof -
  from assms obtain img u where img: "image c = Inr img"
    and u: "get_container_uptime e c = Inr u"
    by (auto simp: build_record_def Let_def split: sum.splits)
  have r: "r = \<lparr> rec_id = short_id c, rec_name = name c, rec_status = status c,
                 rec_image = (case fst img of tag # tags \<Rightarrow> tag | [] \<Rightarrow> snd img),
                 rec_ports = fst (container_ports e m c), rec_uptime = u,
                 rec_ram = fst (get_container_ram_stats e (snd (container_ports e m c)) c),
                 rec_obj = c \<rparr>"
    using assms img u by (simp add: build_record_def Let_def)
  show ?thesis
    unfolding record_for_def
    using u img container_ports_fst_indep [of e m c m0]
      ram_fst_indep [of e "snd (container_ports e m c)" c m0]
    by (simp add: r)
qed

lemma build_record_total:
  assumes "image c = Inr img" and "get_container_uptime e c = Inr u"
  shows "\<exists>r. fst (build_record e m c) = Inr r"
  using assms by (simp add: build_record_def Let_def)

lemma build_all_fields: "fields (snd (build_all e m cs)) = fields m"
proof (induction cs arbitrary: m)
  case Nil
  then show ?case by simp
next
  case (Cons c cs)
  obtain res m1 where b: "build_record e m c = (res, m1)"
    by (cases "build_record e m c")
  have f1: "fields m1 = fields m"
    using build_record_fields [of e m c] b by simp
  obtain res' m2 where bs: "build_all e m1 cs = (res', m2)"
    by (cases "build_all e m1 cs")
  have f2: "fields m2 = fields m1"
    using Cons.IH [of m1] bs by simp
  show ?case
    using b bs f1 f2 by (cases res; cases res'; simp)
qed

lemma build_all_Inr:
  "fst (build_all e m cs) = Inr rs \<Longrightarrow> map rec_obj rs = cs \<and> (\<forall>r\<in>set rs. record_for e m0 r)"
proof (induction cs arbitrary: m rs)
  case Nil
  then show ?case by simp
next
  case (Cons c cs)
  from Cons.prems obtain r m1 rs' m2 where
    b: "build_record e m c = (Inr r, m1)" and bs: "build_all e m1 cs = (Inr rs', m2)"
    and rs: "rs = r # rs'"
    by (auto split: prod.splits sum.splits)
  from b have "rec_obj r = c \<and> record_for e m0 r"
    using build_record_Inr [of e m c r m0] by simp
  moreover from bs have "map rec_obj rs' = cs \<and> (\<forall>r\<in>set rs'. record_for e m0 r)"
    using Cons.IH [of m1 rs'] by simp
  ultimately show ?case by (simp add: rs)
qed

lemma build_all_total:
  assumes "\<forall>c\<in>set cs. (\<exists>img. image c = Inr img) \<and> (\<exists>u. get_container_uptime e c = Inr u)"
  shows "\<exists>rs. fst (build_all e m cs) = Inr rs"
  using assms
proof (induction cs arbitrary: m)
  case Nil
  then show ?case by simp
next
  case (Cons c cs)
  then obtain img u where "image c = Inr img" and "get_container_uptime e c = Inr u"
    by auto
  then obtain r where r: "fst (build_record e m c) = Inr r"
    using build_record_total by blast
  obtain m1 where b: "build_record e m c = (Inr r, m1)"
    using r by (cases "build_record e m c") simp
  from Cons obtain rs where "fst (build_all e m1 cs) = Inr rs"
    by fastforce
  then obtain m2 where "build_all e m1 cs = (Inr rs, m2)"
    by (cases "build_all e m1 cs") simp
  with b show ?case by simp
qed

lemma get_docker_containers_fields_but_error:
  "selected_index (snd (get_docker_containers e m listed)) = selected_index m
   \<and> scroll_pos (snd (get_docker_containers e m listed)) = scroll_pos m
   \<and> status_message (snd (get_docker_containers e m listed)) = status_message m
   \<and> painted (snd (get_docker_containers e m listed)) = painted m"
proof (cases "truthy_opt (docker_error m)")
  case True
  then show ?thesis by (simp add: get_docker_containers_def)
next
  case False
  show ?thesis
  proof (cases listed)
    case (Inl x)
    with False show ?thesis by (simp add: get_docker_containers_def)
  next
    case (Inr cs)
    have "fields (snd (build_all e (m\<lparr>runtime_calls := runtime_calls m + 1\<rparr>) cs)) = fields m"
      by (simp add: build_all_fields)
    with False Inr show ?thesis
      by (auto simp: get_docker_containers_def Let_def fields_def split: prod.splits sum.splits)
  qed
qed

lemma get_docker_containers_success:
  assumes "\<not> truthy_opt (docker_error (snd (get_docker_containers e m listed)))"
  shows "\<exists>cs rs. listed = Inr cs
           \<and> fst (build_all e (m\<lparr>runtime_calls := runtime_calls m + 1\<rparr>) cs) = Inr rs
           \<and> fst (get_docker_containers e m listed) = sort_key rec_name rs
           \<and> docker_error (snd (get_docker_containers e m listed)) = docker_error m"
proof -
  have ne: "\<not> truthy_opt (docker_error m)"
    using assms by (auto simp: get_docker_containers_def)
  show ?thesis
  proof (cases listed)
    case (Inl x)
    with ne assms show ?thesis
      by (simp add: get_docker_containers_def truthy_def)
  next
    case (Inr cs)
    have f: "fields (snd (build_all e (m\<lparr>runtime_calls := runtime_calls m + 1\<rparr>) cs)) = fields m"
      by (simp add: build_all_fields)
    show ?thesis
    proof (cases "fst (build_all e (m\<lparr>runtime_calls := runtime_calls m + 1\<rparr>) cs)")
      case (Inl x)
      with ne assms Inr show ?thesis
        by (auto simp: get_docker_containers_def truthy_def Let_def split: prod.splits)
    next
      case inr: (Inr rs)
      with ne Inr f show ?thesis
        by (auto simp: get_docker_containers_def Let_def fields_def split: prod.splits)
    qed
  qed
qed

section \<open>Failure isolation in the record builder\<close>

lemma uptime_Inr_iff:
  "(\<exists>u. get_container_uptime e c = Inr u) \<longleftrightarrow>
     (\<forall>ts t. status c = ''running'' \<and> started_at c = Some ts
        \<longrightarrow> fromisoformat e (replace_Z ts) \<noteq> Some (Naive t))"
proof (cases "status c = ''running''")
  case False
  then show ?thesis by (simp add: get_container_uptime_def)
next
  case True
  show ?thesis
  proof (cases "started_at c")
    case None
    with True show ?thesis by (simp add: get_container_uptime_def)
  next
    case (Some ts)
    show ?thesis
    proof (cases "fromisoformat e (replace_Z ts)")
      case None
      with True Some show ?thesis by (simp add: get_container_uptime_def)
    next
      case some: (Some d)
      with True Some show ?thesis
        by (cases d) (simp_all add: get_container_uptime_def)
    qed
  qed
qed

lemma uptime_sentinel:
  assumes "status c = ''running''"
    and "started_at c = None \<or> (\<exists>ts. started_at c = Some ts \<and> fromisoformat e (replace_Z ts) = None)"
  shows "get_container_uptime e c = Inr ''Error''"
  using assms by (auto simp: get_container_uptime_def)

lemma ram_sentinel:
  assumes "(\<exists>x. stats c = Inl x) \<or> stats c = Inr None"
  shows "fst (get_container_ram_stats e m c) = ''N/A''"
  using assms by (auto simp: get_container_ram_stats_def Let_def)

text \<open>
  What the record builder does keep apart. When the standing error is not set, no image
  lookup raises and no uptime step raises, the refresh returns one record for each handle
  and sets no error. Each record holds what the sub-steps give for its own container: a
  refused or empty statistics reply puts N/A in the memory field, a missing or unparseable
  start of a running container puts Error in the uptime field, and the ports field is the
  string of the port resolution, whatever the NAT query did.
\<close>

lemma isolated_failures:
  assumes "\<not> truthy_opt (docker_error m)"
    and "\<forall>c\<in>set cs. (\<exists>img. image c = Inr img) \<and>
           (\<forall>ts t. status c = ''running'' \<and> started_at c = Some ts
              \<longrightarrow> fromisoformat e (replace_Z ts) \<noteq> Some (Naive t))"
  shows "length (fst (get_docker_containers e m (Inr cs))) = length cs
    \<and> mset (map rec_obj (fst (get_docker_containers e m (Inr cs)))) = mset cs
    \<and> docker_error (snd (get_docker_containers e m (Inr cs))) = docker_error m
    \<and> (\<forall>r\<in>set (fst (get_docker_containers e m (Inr cs))).
          record_for e m r
          \<and> ((\<exists>x. stats (rec_obj r) = Inl x) \<or> stats (rec_obj r) = Inr None
               \<longrightarrow> rec_ram r = ''N/A'')
          \<and> (status (rec_obj r) = ''running'' \<and>
               (started_at (rec_obj r) = None \<or>
                (\<exists>ts. started_at (rec_obj r) = Some ts \<and> fromisoformat e (replace_Z ts) = None))
               \<longrightarrow> rec_uptime r = ''Error''))"
proof -
  let ?m0 = "m\<lparr>runtime_calls := runtime_calls m + 1\<rparr>"
  from assms(2) have "\<forall>c\<in>set cs. (\<exists>img. image c = Inr img) \<and> (\<exists>u. get_container_uptime e c = Inr u)"
    by (simp add: uptime_Inr_iff)
  then obtain rs where "fst (build_all e ?m0 cs) = Inr rs"
    using build_all_total by blast
  then obtain m1 where b: "build_all e ?m0 cs = (Inr rs, m1)"
    by (cases "build_all e ?m0 cs") simp
  then have rs: "map rec_obj rs = cs" and each: "\<forall>r\<in>set rs. record_for e m r"
    using build_all_Inr [of e ?m0 cs rs m] by simp_all
  have f: "fields m1 = fields m"
    using build_all_fields [of e ?m0 cs] b by simp
  have got: "get_docker_containers e m (Inr cs) = (sort_key rec_name rs, m1)"
    using assms(1) b by (simp add: get_docker_containers_def Let_def)
  have len: "length rs = length cs"
    using rs by (metis length_map)
  have "mset (map rec_obj (sort_key rec_name rs)) = mset (map rec_obj rs)"
    by simp
  then have ms: "mset (map rec_obj (sort_key rec_name rs)) = mset cs"
    by (simp add: rs)
  have sentinels: "((\<exists>x. stats (rec_obj r) = Inl x) \<or> stats (rec_obj r) = Inr None
               \<longrightarrow> rec_ram r = ''N/A'')
          \<and> (status (rec_obj r) = ''running'' \<and>
               (started_at (rec_obj r) = None \<or>
                (\<exists>ts. started_at (rec_obj r) = Some ts \<and> fromisoformat e (replace_Z ts) = None))
               \<longrightarrow> rec_uptime r = ''Error'')" if "record_for e m r" for r
  proof (intro conjI impI)
    assume "(\<exists>x. stats (rec_obj r) = Inl x) \<or> stats (rec_obj r) = Inr None"
    then have "fst (get_container_ram_stats e m (rec_obj r)) = ''N/A''"
      by (rule ram_sentinel)
    with that show "rec_ram r = ''N/A''"
      by (simp add: record_for_def)
  next
    assume "status (rec_obj r) = ''running'' \<and>
               (started_at (rec_obj r) = None \<or>
                (\<exists>ts. started_at (rec_obj r) = Some ts \<and> fromisoformat e (replace_Z ts) = None))"
    then have "get_container_uptime e (rec_obj r) = Inr ''Error''"
      by (intro uptime_sentinel) simp_all
    with that show "rec_uptime r = ''Error''"
      by (simp add: record_for_def)
  qed
  show ?thesis
    unfolding got using len ms f each sentinels
    by (simp add: fields_def)
qed

lemma isolated_failures_example:
  "\<not> truthy_opt (docker_error (init None))
   \<and> length (fst (get_docker_containers env_nat (init None) (Inr [web_1, db_1]))) = 2
   \<and> docker_error (snd (get_docker_containers env_nat (init None) (Inr [web_1, db_1]))) = None
   \<and> map rec_ram (fst (get_docker_containers env_nat (init None) (Inr [web_1, db_1])))
       = [''N/A'', ''0.05G'']"
proof -
  have ok: "\<not> truthy_opt (docker_error (init None))"
    by (simp add: init_def)
  have benign: "\<forall>c\<in>set [web_1, db_1]. (\<exists>img. image c = Inr img) \<and>
           (\<forall>ts t. status c = ''running'' \<and> started_at c = Some ts
              \<longrightarrow> fromisoformat env_nat (replace_Z ts) \<noteq> Some (Naive t))"
    by (simp add: web_1_def db_1_def env_nat_def)
  have e0: "docker_error (init None) = None"
    by (simp add: init_def)
  have rams: "map rec_ram (fst (get_docker_containers env_nat (init None) (Inr [web_1, db_1])))
       = [''N/A'', ''0.05G'']"
    by code_simp
  from isolated_failures [OF ok benign] e0 rams ok show ?thesis
    by simp
qed


section \<open>The order of the inventory\<close>

lemma record_names:
  assumes "fst (build_all e m cs) = Inr rs"
  shows "map rec_name rs = map name cs"
proof -
  from assms have o: "map rec_obj rs = cs" and each: "\<forall>r\<in>set rs. record_for e m r"
    using build_all_Inr [of e m cs rs m] by simp_all
  from each have "map rec_name rs = map (\<lambda>r. name (rec_obj r)) rs"
    by (simp add: record_for_def)
  also have "\<dots> = map name (map rec_obj rs)"
    by simp
  finally show ?thesis
    by (simp add: o)
qed

lemma names_of_sorted: "map rec_name (sort_key rec_name rs) = sort (map rec_name rs)"
proof -
  have "sort (map rec_name rs) = map rec_name (sort_key rec_name rs)"
    by (rule properties_for_sort) simp_all
  then show ?thesis by simp
qed

lemma success_names:
  assumes "\<not> truthy_opt (docker_error (snd (get_docker_containers e m (Inr cs))))"
  shows "map rec_name (fst (get_docker_containers e m (Inr cs))) = sort (map name cs)"
proof -
  from get_docker_containers_success [OF assms] obtain rs where
    b: "fst (build_all e (m\<lparr>runtime_calls := runtime_calls m + 1\<rparr>) cs) = Inr rs"
    and g: "fst (get_docker_containers e m (Inr cs)) = sort_key rec_name rs"
    by auto
  show ?thesis
    by (simp add: g names_of_sorted record_names [OF b])
qed

lemma inventory_sorted_always:
  "sorted (map rec_name (fst (get_docker_containers e m listed)))"
proof (cases "truthy_opt (docker_error (snd (get_docker_containers e m listed)))")
  case False
  from get_docker_containers_success [OF False] obtain rs where
    "fst (get_docker_containers e m listed) = sort_key rec_name rs"
    by auto
  then show ?thesis
    by (simp add: sorted_sort_key)
next
  case True
  have "fst (get_docker_containers e m listed) = []"
  proof (rule ccontr)
    assume ne: "fst (get_docker_containers e m listed) \<noteq> []"
    then have "\<not> truthy_opt (docker_error m)"
      by (auto simp: get_docker_containers_def)
    with ne obtain cs rs m1 where "listed = Inr cs"
      and b: "build_all e (m\<lparr>runtime_calls := runtime_calls m + 1\<rparr>) cs = (Inr rs, m1)"
      by (auto simp: get_docker_containers_def Let_def split: sum.splits prod.splits)
    then have "snd (get_docker_containers e m listed) = m1"
      using \<open>\<not> truthy_opt (docker_error m)\<close> by (simp add: get_docker_containers_def Let_def)
    moreover have "fields m1 = fields m"
      using build_all_fields [of e "m\<lparr>runtime_calls := runtime_calls m + 1\<rparr>" cs] b by simp
    ultimately have "docker_error (snd (get_docker_containers e m listed)) = docker_error m"
      by (simp add: fields_def)
    with True \<open>\<not> truthy_opt (docker_error m)\<close> show False by simp
  qed
  then show ?thesis by simp
qed

text \<open>
  C8. The names of every returned inventory are in ascending order, and two refreshes
  that succeed over handles with the same names give the same sequence of names.
\<close>

theorem inventory_sorted:
  "sorted (map rec_name (fst (get_docker_containers e m listed)))
   \<and> (\<not> truthy_opt (docker_error (snd (get_docker_containers e m (Inr cs))))
      \<and> \<not> truthy_opt (docker_error (snd (get_docker_containers e' m' (Inr cs'))))
      \<and> mset (map name cs) = mset (map name cs')
      \<longrightarrow> map rec_name (fst (get_docker_containers e m (Inr cs)))
          = map rec_name (fst (get_docker_containers e' m' (Inr cs'))))"
proof (intro conjI impI)
  show "sorted (map rec_name (fst (get_docker_containers e m listed)))"
    by (rule inventory_sorted_always)
next
  assume h: "\<not> truthy_opt (docker_error (snd (get_docker_containers e m (Inr cs))))
      \<and> \<not> truthy_opt (docker_error (snd (get_docker_containers e' m' (Inr cs'))))
      \<and> mset (map name cs) = mset (map name cs')"
  then have "sort (map name cs) = sort (map name cs')"
    by (intro properties_for_sort) simp_all
  with h show "map rec_name (fst (get_docker_containers e m (Inr cs)))
          = map rec_name (fst (get_docker_containers e' m' (Inr cs')))"
    by (simp add: success_names)
qed

theorem inventory_sorted_witness:
  "\<not> truthy_opt (docker_error (snd (get_docker_containers env_nat (init None) (Inr [web_1, db_1]))))
   \<and> \<not> truthy_opt (docker_error (snd (get_docker_containers env_later (init None) (Inr [db_1, web_1]))))
   \<and> mset (map name [web_1, db_1]) = mset (map name [db_1, web_1])
   \<and> map rec_name (fst (get_docker_containers env_nat (init None) (Inr [web_1, db_1])))
       = [''db-1'', ''web-1'']
   \<and> map rec_name (fst (get_docker_containers env_later (init None) (Inr [db_1, web_1])))
       = [''db-1'', ''web-1'']
   \<and> sorted [''db-1'', ''web-1'']"
proof -
  have a: "\<not> truthy_opt (docker_error (snd (get_docker_containers env_nat (init None) (Inr [web_1, db_1]))))"
    by code_simp
  have b: "\<not> truthy_opt (docker_error (snd (get_docker_containers env_later (init None) (Inr [db_1, web_1]))))"
    by code_simp
  have c: "mset (map name [web_1, db_1]) = mset (map name [db_1, web_1])"
    by (simp add: web_1_def db_1_def)
  have d: "map rec_name (fst (get_docker_containers env_nat (init None) (Inr [web_1, db_1])))
       = [''db-1'', ''web-1'']"
    by code_simp
  note inst = inventory_sorted [of env_nat "init None" "Inr [web_1, db_1]" "[web_1, db_1]"
      env_later "init None" "[db_1, web_1]"]
  from inst have s: "sorted (map rec_name (fst (get_docker_containers env_nat (init None) (Inr [web_1, db_1]))))"
    by (rule conjunct1)
  from inst a b c
  have eq: "map rec_name (fst (get_docker_containers env_nat (init None) (Inr [web_1, db_1])))
          = map rec_name (fst (get_docker_containers env_later (init None) (Inr [db_1, web_1])))"
    by blast
  from s have s': "sorted [''db-1'', ''web-1'']"
    by (simp only: d)
  from eq have d': "map rec_name (fst (get_docker_containers env_later (init None) (Inr [db_1, web_1])))
       = [''db-1'', ''web-1'']"
    by (simp only: d)
  show ?thesis
    by (intro conjI a b c d d' s')
qed

section \<open>The ports field\<close>

lemma port_entry_reported:
  assumes "h \<noteq> ''N/A''"
  shows "fst (port_entry e m ip (k, Some (Some h # bs))) = h @ ''->'' @ split_slash_first k"
  using assms by (simp add: port_entry_def Let_def)

lemma port_entry_fallback:
  assumes "info = None \<or> info = Some [] \<or> (\<exists>bs. info = Some (None # bs))"
  shows "fst (port_entry e m ip (k, info)) =
     (if fst (get_host_port_from_iptables e m ip (split_slash_first k)) = ''N/A''
      then split_slash_first k
      else fst (get_host_port_from_iptables e m ip (split_slash_first k)) @ ''->''
             @ split_slash_first k)"
  using assms by (auto simp: port_entry_def Let_def)

text \<open>
  C9, as amended. In the scenario the ports field is 54772->80. A port whose first binding
  reports a host port prints as host port, arrow, container port. A port without one
  prints by the answer of the NAT query: the port found and the arrow; the bare container
  port when the query selects nothing or its output has no port clause; Error and the
  arrow when the query raises another exception. A container with no declared port has
  N/A, any other the entries of its ports joined by commas.
\<close>

theorem ports_format:
  "map rec_ports (fst (get_docker_containers env_nat (init None) (Inr [web_1]))) = [''54772->80'']
   \<and> (h \<noteq> ''N/A'' \<longrightarrow>
        fst (port_entry e m ip (k, Some (Some h # bs))) = h @ ''->'' @ split_slash_first k)
   \<and> ((info = None \<or> info = Some [] \<or> (\<exists>bs. info = Some (None # bs)))
        \<and> ip \<noteq> [] \<and> split_slash_first k \<noteq> [] \<longrightarrow>
        (\<forall>out p. run e (iptables_command ip (split_slash_first k)) = Inr out
            \<and> re_search_dport out = Some p
            \<longrightarrow> fst (port_entry e m ip (k, info)) = p @ ''->'' @ split_slash_first k)
        \<and> ((\<exists>out. run e (iptables_command ip (split_slash_first k)) = Inr out
                \<and> re_search_dport out = None)
            \<or> (\<exists>x. run e (iptables_command ip (split_slash_first k)) = Inl x
                 \<and> exn_class_of x = CalledProcessError)
            \<longrightarrow> fst (port_entry e m ip (k, info)) = split_slash_first k)
        \<and> ((\<exists>x. run e (iptables_command ip (split_slash_first k)) = Inl x
                 \<and> exn_class_of x \<noteq> CalledProcessError)
            \<longrightarrow> fst (port_entry e m ip (k, info)) = ''Error->'' @ split_slash_first k))
   \<and> (port_data c = [] \<longrightarrow> fst (container_ports e m c) = ''N/A'')
   \<and> (port_data c \<noteq> [] \<longrightarrow>
        fst (container_ports e m c)
          = join '','' (map (\<lambda>item. fst (port_entry e m (find_ip_addr (networks c)) item))
                            (port_data c)))"
proof (intro conjI impI allI)
  show "map rec_ports (fst (get_docker_containers env_nat (init None) (Inr [web_1]))) = [''54772->80'']"
    by code_simp
next
  assume "h \<noteq> ''N/A''"
  then show "fst (port_entry e m ip (k, Some (Some h # bs))) = h @ ''->'' @ split_slash_first k"
    by (rule port_entry_reported)
next
  fix out p
  assume a: "(info = None \<or> info = Some [] \<or> (\<exists>bs. info = Some (None # bs)))
        \<and> ip \<noteq> [] \<and> split_slash_first k \<noteq> []"
    and r: "run e (iptables_command ip (split_slash_first k)) = Inr out
            \<and> re_search_dport out = Some p"
  from a r have n: "fst (get_host_port_from_iptables e m ip (split_slash_first k)) = p"
    by (simp add: iptables_output)
  from r have "p \<noteq> ''N/A''"
    using re_search_dport_not_sentinel(2) by blast
  with a n show "fst (port_entry e m ip (k, info)) = p @ ''->'' @ split_slash_first k"
    by (simp add: port_entry_fallback)
next
  assume a: "(info = None \<or> info = Some [] \<or> (\<exists>bs. info = Some (None # bs)))
        \<and> ip \<noteq> [] \<and> split_slash_first k \<noteq> []"
    and r: "(\<exists>out. run e (iptables_command ip (split_slash_first k)) = Inr out
                \<and> re_search_dport out = None)
            \<or> (\<exists>x. run e (iptables_command ip (split_slash_first k)) = Inl x
                 \<and> exn_class_of x = CalledProcessError)"
  from a r have n: "fst (get_host_port_from_iptables e m ip (split_slash_first k)) = ''N/A''"
    by (auto simp: iptables_output iptables_raise)
  with a show "fst (port_entry e m ip (k, info)) = split_slash_first k"
    by (simp add: port_entry_fallback)
next
  assume a: "(info = None \<or> info = Some [] \<or> (\<exists>bs. info = Some (None # bs)))
        \<and> ip \<noteq> [] \<and> split_slash_first k \<noteq> []"
    and r: "\<exists>x. run e (iptables_command ip (split_slash_first k)) = Inl x
                 \<and> exn_class_of x \<noteq> CalledProcessError"
  from a r have n: "fst (get_host_port_from_iptables e m ip (split_slash_first k)) = ''Error''"
    by (auto simp: iptables_raise)
  with a show "fst (port_entry e m ip (k, info)) = ''Error->'' @ split_slash_first k"
    by (simp add: port_entry_fallback)
next
  assume "port_data c = []"
  then show "fst (container_ports e m c) = ''N/A''"
    by (simp add: container_ports_fst [of e m c m])
next
  assume "port_data c \<noteq> []"
  then show "fst (container_ports e m c)
          = join '','' (map (\<lambda>item. fst (port_entry e m (find_ip_addr (networks c)) item))
                            (port_data c))"
    by (simp add: container_ports_fst [of e m c m])
qed

theorem ports_format_witness:
  "''6379'' \<noteq> ''N/A''
   \<and> fst (port_entry env_nat (init None) ''172.17.0.6'' (''6379/tcp'', Some [Some ''6379'']))
       = ''6379->6379''
   \<and> fst (port_entry env_nat (init None) ''172.17.0.5'' (''80/tcp'', None)) = ''54772->80''
   \<and> fst (port_entry env_behind (init None) ''172.17.0.5'' (''80/tcp'', None)) = ''80''
   \<and> fst (port_entry env_broken (init None) ''172.17.0.5'' (''80/tcp'', None)) = ''Error->80''
   \<and> port_data db_1 = [] \<and> fst (container_ports env_nat (init None) db_1) = ''N/A''
   \<and> port_data web_1 \<noteq> [] \<and> fst (container_ports env_nat (init None) web_1) = ''54772->80''"
proof -
  have k: "split_slash_first ''80/tcp'' = ''80''" "split_slash_first ''6379/tcp'' = ''6379''"
    by (simp_all add: split_slash_first_def)
  have pre: "(None = None \<or> None = Some [] \<or> (\<exists>bs. (None :: string option list option) = Some (None # bs)))
        \<and> ''172.17.0.5'' \<noteq> [] \<and> split_slash_first ''80/tcp'' \<noteq> []"
    by (simp add: k)
  have r1: "run env_nat (iptables_command ''172.17.0.5'' (split_slash_first ''80/tcp''))
       = Inr ''-A DOCKER ! -i docker0 -p tcp -m tcp --dport 54772 -j DNAT --to-destination 172.17.0.5:80''
     \<and> re_search_dport ''-A DOCKER ! -i docker0 -p tcp -m tcp --dport 54772 -j DNAT --to-destination 172.17.0.5:80''
       = Some ''54772''"
    by code_simp
  have r2: "\<exists>x. run env_behind (iptables_command ''172.17.0.5'' (split_slash_first ''80/tcp'')) = Inl x
                 \<and> exn_class_of x = CalledProcessError"
    by (simp add: env_behind_def)
  have r3: "\<exists>x. run env_broken (iptables_command ''172.17.0.5'' (split_slash_first ''80/tcp'')) = Inl x
                 \<and> exn_class_of x \<noteq> CalledProcessError"
    by (simp add: env_broken_def)
  have h: "''6379'' \<noteq> ''N/A''" by simp
  have d: "port_data db_1 = []" by (simp add: db_1_def)
  have w: "port_data web_1 \<noteq> []" by (simp add: web_1_def)
  have wp: "port_data web_1 = [(''80/tcp'', None)]" "find_ip_addr (networks web_1) = ''172.17.0.5''"
    by (simp_all add: web_1_def truthy_def)
  from ports_format [of "''6379''" env_nat "init None" "''172.17.0.6''" "''6379/tcp''" "[]"] h
  have a: "fst (port_entry env_nat (init None) ''172.17.0.6'' (''6379/tcp'', Some [Some ''6379'']))
       = ''6379->6379''"
    by (simp add: k)
  from ports_format [of _ env_nat "init None" "''172.17.0.5''" "''80/tcp''" _ None] pre r1
  have b: "fst (port_entry env_nat (init None) ''172.17.0.5'' (''80/tcp'', None)) = ''54772->80''"
    by (simp add: k)
  from ports_format [of _ env_behind "init None" "''172.17.0.5''" "''80/tcp''" _ None] pre r2
  have c: "fst (port_entry env_behind (init None) ''172.17.0.5'' (''80/tcp'', None)) = ''80''"
    by (simp add: k)
  from ports_format [of _ env_broken "init None" "''172.17.0.5''" "''80/tcp''" _ None] pre r3
  have c': "fst (port_entry env_broken (init None) ''172.17.0.5'' (''80/tcp'', None)) = ''Error->80''"
    by (simp add: k)
  from ports_format [of _ env_nat "init None" _ _ _ _ db_1] d
  have e: "fst (container_ports env_nat (init None) db_1) = ''N/A''"
    by simp
  from ports_format [of _ env_nat "init None" _ _ _ _ web_1] w
  have "fst (container_ports env_nat (init None) web_1)
          = join '','' (map (\<lambda>item. fst (port_entry env_nat (init None) (find_ip_addr (networks web_1)) item))
                            (port_data web_1))"
    by simp
  then have f: "fst (container_ports env_nat (init None) web_1) = ''54772->80''"
    by (simp add: wp b)
  show ?thesis
    by (intro conjI h a b c c' d e w f)
qed

text \<open>
  The claim as written, the bare container port for every unresolved port, fails when the
  NAT query cannot be started: the entry is Error with the arrow.
\<close>

theorem ports_format_counterexample:
  "port_data web_1 = [(''80/tcp'', None)]
   \<and> fst (get_host_port_from_iptables env_broken (init None) ''172.17.0.5'' ''80'') = ''Error''
   \<and> map rec_ports (fst (get_docker_containers env_broken (init None) (Inr [web_1])))
       = [''Error->80'']"
  by code_simp

section \<open>Frames of the loop\<close>

lemma draw_footer_frame:
  "selected_index (draw_footer m) = selected_index m
   \<and> scroll_pos (draw_footer m) = scroll_pos m
   \<and> docker_error (draw_footer m) = docker_error m
   \<and> runtime_calls (draw_footer m) = runtime_calls m"
  by (simp add: draw_footer_def Let_def)

lemma draw_container_list_frame:
  "selected_index (draw_container_list m h cs) = selected_index m
   \<and> docker_error (draw_container_list m h cs) = docker_error m
   \<and> runtime_calls (draw_container_list m h cs) = runtime_calls m
   \<and> status_message (draw_container_list m h cs) = status_message m
   \<and> painted (draw_container_list m h cs) = painted m"
  by (simp add: draw_container_list_def Let_def)

lemma draw_frame_frame:
  "selected_index (draw_frame m h cs) = selected_index m
   \<and> docker_error (draw_frame m h cs) = docker_error m
   \<and> runtime_calls (draw_frame m h cs) = runtime_calls m"
  by (simp add: draw_frame_def draw_footer_frame draw_container_list_frame)

lemma scroll_clamp_nonneg:
  assumes "0 \<le> selected_index m" and "0 \<le> scroll_pos m"
  shows "0 \<le> scroll_pos (draw_container_list m h cs)"
  using assms by (simp add: draw_container_list_def Let_def)

lemma perform_action_frame_case:
  "case perform_action reply m a cs n of
     Inl x \<Rightarrow> True
   | Inr m' \<Rightarrow> selected_index m' = selected_index m \<and> scroll_pos m' = scroll_pos m
         \<and> docker_error m' = docker_error m"
  by (simp add: perform_action_def Let_def split: sum.split option.split)

lemma perform_action_error_set:
  "truthy_opt (docker_error m) \<Longrightarrow> perform_action reply m a cs n = Inr m"
  by (simp add: perform_action_def)

lemma get_docker_containers_error_set:
  "truthy_opt (docker_error m) \<Longrightarrow> get_docker_containers e m listed = ([], m)"
  by (simp add: get_docker_containers_def)

lemma handle_key_error_set:
  assumes "truthy_opt (docker_error m)"
  shows "case handle_key t m cs of
     Inl (x, m') \<Rightarrow> docker_error m' = docker_error m \<and> runtime_calls m' = runtime_calls m
   | Inr None \<Rightarrow> True
   | Inr (Some (m', cs')) \<Rightarrow> docker_error m' = docker_error m
       \<and> runtime_calls m' = runtime_calls m"
  using assms
  by (simp add: handle_key_def after_action_def Let_def draw_footer_frame
      perform_action_error_set get_docker_containers_error_set split: sum.split)

lemma handle_key_frame:
  "case handle_key t m cs of
     Inl (x, m') \<Rightarrow> selected_index m' = selected_index m \<and> scroll_pos m' = scroll_pos m
   | Inr None \<Rightarrow> True
   | Inr (Some (m', cs')) \<Rightarrow> scroll_pos m' = scroll_pos m
       \<and> (0 \<le> selected_index m \<longrightarrow> 0 \<le> selected_index m')"
proof -
  let ?m1 = "draw_footer (m\<lparr>status_message := ''Stopping container, this may take a minute...''\<rparr>)"
  note pa = perform_action_frame_case [where reply = "action_reply t" and cs = cs]
  note f1 = pa [where m = m and a = "''start''" and n = "[]"]
  note f2 = pa [where m = ?m1 and a = "''stop''" and n = "[]"]
  note f3 = pa [where m = m and a = "''restart''" and n = "[]"]
  note f4 = pa [where m = m and a = "''remove''" and n = "[]"]
  note f5 = pa [where m = m and a = "''rename''" and n = "name_input t"]
  note g = get_docker_containers_fields_but_error [of "world t" m "listing t"]
  show ?thesis
  proof (cases "key t \<in> set [ord CHR ''q'', ord CHR ''Q'']")
    case True
    then show ?thesis
      by (simp add: handle_key_def)
  next
    case n0: False
    show ?thesis
    proof (cases "key t = KEY_UP")
      case True
      with n0 show ?thesis
        by (simp add: handle_key_def)
    next
      case n1: False
      show ?thesis
      proof (cases "key t = KEY_DOWN \<and> cs \<noteq> []")
        case True
        with n0 n1 show ?thesis
          by (simp add: handle_key_def)
      next
        case n2: False
        show ?thesis
        proof (cases "key t \<in> set [ord CHR ''u'', ord CHR ''U'']")
          case True
          with n0 n1 n2 g show ?thesis
            by (auto simp add: handle_key_def Let_def)
        next
          case n3: False
          show ?thesis
          proof (cases "key t \<in> set [ord CHR ''s'', ord CHR ''S'']")
            case True
            with n0 n1 n2 n3 f1 show ?thesis
              by (cases "perform_action (action_reply t) m ''start'' cs []") (auto simp add: handle_key_def after_action_def)
          next
            case n4: False
            show ?thesis
            proof (cases "key t \<in> set [ord CHR ''x'', ord CHR ''X''] \<and> cs \<noteq> []")
              case True
              with n0 n1 n2 n3 n4 f2 show ?thesis
                by (cases "perform_action (action_reply t) ?m1 ''stop'' cs []") (auto simp add: handle_key_def after_action_def Let_def draw_footer_frame)
            next
              case n5: False
              show ?thesis
              proof (cases "key t \<in> set [ord CHR ''r'', ord CHR ''R'']")
                case True
                with n0 n1 n2 n3 n4 n5 f3 show ?thesis
                  by (cases "perform_action (action_reply t) m ''restart'' cs []") (auto simp add: handle_key_def after_action_def)
              next
                case n6: False
                show ?thesis
                proof (cases "key t \<in> set [ord CHR ''d'', ord CHR ''D''] \<and> cs \<noteq> []")
                  case True
                  with n0 n1 n2 n3 n4 n5 n6 f4 show ?thesis
                    by (cases "perform_action (action_reply t) m ''remove'' cs []"; cases "py_index cs (selected_index m)") (auto simp add: handle_key_def after_action_def)
                next
                  case n7: False
                  show ?thesis
                  proof (cases "key t \<in> set [ord CHR ''n'', ord CHR ''N''] \<and> cs \<noteq> []")
                    case True
                    with n0 n1 n2 n3 n4 n5 n6 n7 f5 show ?thesis
                      by (cases "perform_action (action_reply t) m ''rename'' cs (name_input t)"; cases "py_index cs (selected_index m)") (auto simp add: handle_key_def after_action_def)
                  next
                    case n8: False
                    from n0 n1 n2 n3 n4 n5 n6 n7 n8 show ?thesis
                      by (auto simp add: handle_key_def)
                  qed
                qed
              qed
            qed
          qed
        qed
      qed
    qed
  qed
qed

section \<open>The selection and the scroll position never go below zero\<close>

lemma loop_body_nonneg:
  assumes "0 \<le> selected_index m"
  shows "0 \<le> selected_index (monitor_of (loop_body t m cs))
    \<and> (0 \<le> scroll_pos m \<longrightarrow> 0 \<le> scroll_pos (monitor_of (loop_body t m cs)))"
proof (cases "handle_key t m cs")
  case (Inl xm)
  obtain x m' where xm: "xm = (x, m')" by (cases xm)
  with Inl handle_key_frame [where t = t and m = m and cs = cs] assms show ?thesis
    by (simp add: loop_body_def)
next
  case (Inr res)
  show ?thesis
  proof (cases res)
    case None
    with Inr assms show ?thesis by (simp add: loop_body_def)
  next
    case (Some mc)
    obtain m1 cs1 where mc: "mc = (m1, cs1)" by (cases mc)
    let ?got = "if key t = - 1 then get_docker_containers (world t) m1 (listing t) else (cs1, m1)"
    from Inr Some mc handle_key_frame [where t = t and m = m and cs = cs] assms
    have m1: "scroll_pos m1 = scroll_pos m" "0 \<le> selected_index m1"
      by simp_all
    have got: "selected_index (snd ?got) = selected_index m1" "scroll_pos (snd ?got) = scroll_pos m1"
      using get_docker_containers_fields_but_error [of "world t" m1 "listing t"] by simp_all
    have body: "loop_body t m cs = Running (draw_frame (snd ?got) (scr_height t) (fst ?got)) (fst ?got)"
      using Inr Some mc by (simp add: loop_body_def Let_def)
    have sel: "0 \<le> selected_index (draw_frame (snd ?got) (scr_height t) (fst ?got))"
      using m1 got by (simp add: draw_frame_frame)
    have scr: "0 \<le> scroll_pos (draw_frame (snd ?got) (scr_height t) (fst ?got))"
      if "0 \<le> scroll_pos m"
    proof -
      have "0 \<le> scroll_pos (draw_container_list (snd ?got) (scr_height t) (fst ?got))"
        using m1 got that by (intro scroll_clamp_nonneg) simp_all
      then show ?thesis
        by (simp add: draw_frame_def draw_footer_frame)
    qed
    show ?thesis
      unfolding body using sel scr by simp
  qed
qed

lemma run_loop_selected_nonneg:
  "0 \<le> selected_index m \<Longrightarrow> 0 \<le> selected_index (monitor_of (run_loop m cs ts))"
proof (induction ts arbitrary: m cs)
  case Nil
  then show ?case by simp
next
  case (Cons t ts)
  from Cons.prems have step: "0 \<le> selected_index (monitor_of (loop_body t m cs))"
    by (simp add: loop_body_nonneg)
  show ?case
  proof (cases "loop_body t m cs")
    case (Running m' cs')
    with step Cons.IH [of m' cs'] show ?thesis by simp
  next
    case (Quit m')
    with step show ?thesis by simp
  next
    case (Crashed x m')
    with step show ?thesis by simp
  qed
qed

lemma run_loop_scroll_nonneg:
  "0 \<le> selected_index m \<Longrightarrow> 0 \<le> scroll_pos m
     \<Longrightarrow> 0 \<le> scroll_pos (monitor_of (run_loop m cs ts))"
proof (induction ts arbitrary: m cs)
  case Nil
  then show ?case by simp
next
  case (Cons t ts)
  from Cons.prems have step: "0 \<le> selected_index (monitor_of (loop_body t m cs))"
    "0 \<le> scroll_pos (monitor_of (loop_body t m cs))"
    by (simp_all add: loop_body_nonneg)
  show ?case
  proof (cases "loop_body t m cs")
    case (Running m' cs')
    with step Cons.IH [of m' cs'] show ?thesis by simp
  next
    case (Quit m')
    with step show ?thesis by simp
  next
    case (Crashed x m')
    with step show ?thesis by simp
  qed
qed

text \<open>
  C10. A turn of the loop, any number of turns, and the whole loop from the start keep
  the selection at or above zero, whatever the keys and the listings are; the scroll clamp
  keeps the scroll position at or above zero, and so does the loop.
\<close>

theorem indices_nonneg:
  "(0 \<le> selected_index m \<longrightarrow>
      0 \<le> selected_index (monitor_of (loop_body t m cs))
      \<and> 0 \<le> selected_index (monitor_of (run_loop m cs ts)))
   \<and> (0 \<le> selected_index m \<and> 0 \<le> scroll_pos m \<longrightarrow>
      0 \<le> scroll_pos (draw_container_list m h cs)
      \<and> 0 \<le> scroll_pos (monitor_of (run_loop m cs ts)))
   \<and> 0 \<le> selected_index (monitor_of (app_loop e listed (init ping) ts))
   \<and> 0 \<le> scroll_pos (monitor_of (app_loop e listed (init ping) ts))"
proof -
  let ?got = "get_docker_containers e (init ping) listed"
  have start: "selected_index (snd ?got) = 0" "scroll_pos (snd ?got) = 0"
    using get_docker_containers_fields_but_error [of e "init ping" listed]
    by (simp_all add: init_def)
  have app: "app_loop e listed (init ping) ts = run_loop (snd ?got) (fst ?got) ts"
    by (simp add: app_loop_def Let_def)
  have a: "0 \<le> selected_index (monitor_of (app_loop e listed (init ping) ts))"
    unfolding app using start by (intro run_loop_selected_nonneg) simp
  have b: "0 \<le> scroll_pos (monitor_of (app_loop e listed (init ping) ts))"
    unfolding app using start by (intro run_loop_scroll_nonneg) simp_all
  show ?thesis
    using a b
    by (simp add: loop_body_nonneg run_loop_selected_nonneg run_loop_scroll_nonneg
        scroll_clamp_nonneg)
qed

theorem indices_nonneg_witness:
  "0 \<le> selected_index (init None) \<and> 0 \<le> scroll_pos (init None)
   \<and> selected_index (monitor_of (loop_body (turn KEY_UP (Inr [])) (init None) [])) = 0
   \<and> 0 \<le> selected_index (monitor_of (run_loop (init None) []
          [turn KEY_UP (Inr []), turn (- 1) (Inr [web_1, db_1]), turn KEY_DOWN (Inr [])]))
   \<and> 0 \<le> scroll_pos (monitor_of (run_loop (init None) []
          [turn KEY_UP (Inr []), turn (- 1) (Inr [web_1, db_1]), turn KEY_DOWN (Inr [])]))
   \<and> 0 \<le> scroll_pos (draw_container_list (init None) 24 [])"
proof -
  have pre: "0 \<le> selected_index (init None)" "0 \<le> scroll_pos (init None)"
    by (simp_all add: init_def)
  have up: "selected_index (monitor_of (loop_body (turn KEY_UP (Inr [])) (init None) [])) = 0"
    by code_simp
  note inst = indices_nonneg [of "init None" "turn KEY_UP (Inr [])" "[]"
      "[turn KEY_UP (Inr []), turn (- 1) (Inr [web_1, db_1]), turn KEY_DOWN (Inr [])]" 24]
  from inst pre have rest:
    "0 \<le> selected_index (monitor_of (run_loop (init None) []
          [turn KEY_UP (Inr []), turn (- 1) (Inr [web_1, db_1]), turn KEY_DOWN (Inr [])]))"
    "0 \<le> scroll_pos (monitor_of (run_loop (init None) []
          [turn KEY_UP (Inr []), turn (- 1) (Inr [web_1, db_1]), turn KEY_DOWN (Inr [])]))"
    "0 \<le> scroll_pos (draw_container_list (init None) 24 [])"
    by blast+
  show ?thesis
    by (intro conjI pre up rest)
qed

section \<open>The standing error\<close>

lemma loop_body_error_set:
  assumes "truthy_opt (docker_error m)"
  shows "docker_error (monitor_of (loop_body t m cs)) = docker_error m
    \<and> runtime_calls (monitor_of (loop_body t m cs)) = runtime_calls m"
proof (cases "handle_key t m cs")
  case (Inl xm)
  obtain x m' where xm: "xm = (x, m')" by (cases xm)
  with Inl handle_key_error_set [OF assms, of t cs] show ?thesis
    by (simp add: loop_body_def)
next
  case (Inr res)
  show ?thesis
  proof (cases res)
    case None
    with Inr show ?thesis by (simp add: loop_body_def)
  next
    case (Some mc)
    obtain m1 cs1 where mc: "mc = (m1, cs1)" by (cases mc)
    from Inr Some mc handle_key_error_set [OF assms, of t cs]
    have m1: "docker_error m1 = docker_error m" "runtime_calls m1 = runtime_calls m"
      by simp_all
    with assms have "truthy_opt (docker_error m1)" by simp
    then have "get_docker_containers (world t) m1 (listing t) = ([], m1)"
      by (rule get_docker_containers_error_set)
    with Inr Some mc m1 show ?thesis
      by (simp add: loop_body_def Let_def draw_frame_frame)
  qed
qed

lemma run_loop_error_set:
  "truthy_opt (docker_error m) \<Longrightarrow>
     docker_error (monitor_of (run_loop m cs ts)) = docker_error m
     \<and> runtime_calls (monitor_of (run_loop m cs ts)) = runtime_calls m"
proof (induction ts arbitrary: m cs)
  case Nil
  then show ?case by simp
next
  case (Cons t ts)
  from Cons.prems have step: "docker_error (monitor_of (loop_body t m cs)) = docker_error m"
    "runtime_calls (monitor_of (loop_body t m cs)) = runtime_calls m"
    by (simp_all add: loop_body_error_set)
  show ?case
  proof (cases "loop_body t m cs")
    case (Running m' cs')
    with step Cons.prems have "truthy_opt (docker_error m')" by simp
    from Cons.IH [OF this, of cs'] Running step show ?thesis by simp
  next
    case (Quit m')
    with step show ?thesis by simp
  next
    case (Crashed x m')
    with step show ?thesis by simp
  qed
qed

lemma error_once_set:
  assumes "\<not> truthy_opt (docker_error m)"
    and "docker_error (snd (get_docker_containers e m listed)) \<noteq> docker_error m"
  shows "truthy_opt (docker_error (snd (get_docker_containers e m listed)))
    \<and> fst (get_docker_containers e m listed) = []"
proof (rule ccontr)
  assume n: "\<not> (truthy_opt (docker_error (snd (get_docker_containers e m listed)))
    \<and> fst (get_docker_containers e m listed) = [])"
  show False
  proof (cases "truthy_opt (docker_error (snd (get_docker_containers e m listed)))")
    case False
    from get_docker_containers_success [OF False] assms(2) show False by auto
  next
    case True
    with n have ne: "fst (get_docker_containers e m listed) \<noteq> []" by simp
    with assms(1) obtain cs rs m1 where "listed = Inr cs"
      and b: "build_all e (m\<lparr>runtime_calls := runtime_calls m + 1\<rparr>) cs = (Inr rs, m1)"
      by (auto simp: get_docker_containers_def Let_def split: sum.splits prod.splits)
    then have "snd (get_docker_containers e m listed) = m1"
      using assms(1) by (simp add: get_docker_containers_def Let_def)
    moreover have "fields m1 = fields m"
      using build_all_fields [of e "m\<lparr>runtime_calls := runtime_calls m + 1\<rparr>" cs] b by simp
    ultimately show False
      using assms(2) by (simp add: fields_def)
  qed
qed

text \<open>
  C5. Once the error is set, at start-up or by an enumeration, a refresh returns the
  empty list and leaves the monitor as it is, with no request to the runtime; and whatever
  turns the loop takes from there, the error stays the same and the count of requests to
  the runtime stays the same.
\<close>

theorem standing_error:
  "(truthy_opt (docker_error m) \<longrightarrow>
      get_docker_containers e m listed = ([], m)
      \<and> docker_error (monitor_of (run_loop m cs ts)) = docker_error m
      \<and> runtime_calls (monitor_of (run_loop m cs ts)) = runtime_calls m)
   \<and> truthy_opt (docker_error (init (Some x)))
   \<and> (\<not> truthy_opt (docker_error m)
       \<and> docker_error (snd (get_docker_containers e m listed)) \<noteq> docker_error m \<longrightarrow>
      truthy_opt (docker_error (snd (get_docker_containers e m listed)))
      \<and> fst (get_docker_containers e m listed) = [])"
proof (intro conjI impI)
  show "truthy_opt (docker_error (init (Some x)))"
    by (simp add: init_def truthy_def)
next
  assume "\<not> truthy_opt (docker_error m)
       \<and> docker_error (snd (get_docker_containers e m listed)) \<noteq> docker_error m"
  then show "truthy_opt (docker_error (snd (get_docker_containers e m listed)))"
    and "fst (get_docker_containers e m listed) = []"
    by (simp_all add: error_once_set)
qed (simp_all add: get_docker_containers_error_set run_loop_error_set)

theorem standing_error_witness:
  "truthy_opt (docker_error (init (Some (Raise DockerException ''connection refused''))))
   \<and> get_docker_containers env_nat (init (Some (Raise DockerException ''connection refused'')))
        (Inr [web_1, db_1])
       = ([], init (Some (Raise DockerException ''connection refused'')))
   \<and> docker_error (monitor_of (run_loop (init (Some (Raise DockerException ''connection refused''))) []
        [turn (ord CHR ''u'') (Inr [web_1]), turn (- 1) (Inr [web_1]), turn (ord CHR ''s'') (Inr [web_1])]))
       = Some ''Docker not available: connection refused''
   \<and> runtime_calls (monitor_of (run_loop (init (Some (Raise DockerException ''connection refused''))) []
        [turn (ord CHR ''u'') (Inr [web_1]), turn (- 1) (Inr [web_1]), turn (ord CHR ''s'') (Inr [web_1])]))
       = 1
   \<and> \<not> truthy_opt (docker_error (init None))
   \<and> docker_error (snd (get_docker_containers env_naive (init None) (Inr [cache_1])))
       \<noteq> docker_error (init None)
   \<and> truthy_opt (docker_error (snd (get_docker_containers env_naive (init None) (Inr [cache_1]))))"
proof -
  let ?m = "init (Some (Raise DockerException ''connection refused''))"
  let ?ts = "[turn (ord CHR ''u'') (Inr [web_1]), turn (- 1) (Inr [web_1]), turn (ord CHR ''s'') (Inr [web_1])]"
  have pre: "truthy_opt (docker_error ?m)"
    by (simp add: init_def truthy_def)
  have vals: "docker_error ?m = Some ''Docker not available: connection refused''"
    "runtime_calls ?m = 1"
    by (simp_all add: init_def)
  have p2: "\<not> truthy_opt (docker_error (init None))"
    by (simp add: init_def)
  have p3: "docker_error (snd (get_docker_containers env_naive (init None) (Inr [cache_1])))
       \<noteq> docker_error (init None)"
    by code_simp
  note inst = standing_error [of ?m env_nat "Inr [web_1, db_1]" "[]" ?ts]
  from inst pre have a: "get_docker_containers env_nat ?m (Inr [web_1, db_1]) = ([], ?m)"
    by blast
  from inst pre have "docker_error (monitor_of (run_loop ?m [] ?ts)) = docker_error ?m"
    and "runtime_calls (monitor_of (run_loop ?m [] ?ts)) = runtime_calls ?m"
    by blast+
  then have b: "docker_error (monitor_of (run_loop ?m [] ?ts)) = Some ''Docker not available: connection refused''"
    and c: "runtime_calls (monitor_of (run_loop ?m [] ?ts)) = 1"
    by (simp_all only: vals)
  from standing_error [of "init None" env_naive "Inr [cache_1]"] p2 p3
  have d: "truthy_opt (docker_error (snd (get_docker_containers env_naive (init None) (Inr [cache_1]))))"
    by blast
  show ?thesis
    by (intro conjI pre a b c p2 p3 d)
qed

section \<open>What drawing a frame does to the monitor\<close>

lemma draw_footer_message:
  "status_message (draw_footer m) =
     (if contains ''Successfully'' (status_message m) \<or> contains ''Error'' (status_message m)
      then [] else status_message m)
   \<and> painted (draw_footer m) =
     (if status_message m \<noteq> [] then painted m @ [status_message m] else painted m)"
  by (cases "status_message m") (simp_all add: draw_footer_def Let_def truthy_def)

lemma draw_container_list_scroll:
  "scroll_pos (draw_container_list m h cs) =
     (if truthy_opt (docker_error m) \<or> cs = [] then scroll_pos m
      else if selected_index m \<ge> min (scroll_pos m) (selected_index m) + (h - 12)
      then selected_index m - (h - 12) + 1
      else min (scroll_pos m) (selected_index m))"
  by (simp add: draw_container_list_def Let_def min_def)

text \<open>
  C7, as amended. Drawing a frame leaves the selection, the error and the count of
  requests as they are. The status message is painted when it is not empty and is then
  cleared exactly when it contains Successfully or Error. The scroll position is left
  alone when the error is set or the list is empty; otherwise it is set by the scroll
  clamp, which changes nothing when the selection is already in the window.
\<close>

theorem frame_effects:
  "selected_index (draw_frame m h cs) = selected_index m
   \<and> docker_error (draw_frame m h cs) = docker_error m
   \<and> runtime_calls (draw_frame m h cs) = runtime_calls m
   \<and> status_message (draw_frame m h cs) =
       (if contains ''Successfully'' (status_message m) \<or> contains ''Error'' (status_message m)
        then [] else status_message m)
   \<and> painted (draw_frame m h cs) =
       (if status_message m \<noteq> [] then painted m @ [status_message m] else painted m)
   \<and> scroll_pos (draw_frame m h cs) =
       (if truthy_opt (docker_error m) \<or> cs = [] then scroll_pos m
        else if selected_index m \<ge> min (scroll_pos m) (selected_index m) + (h - 12)
        then selected_index m - (h - 12) + 1
        else min (scroll_pos m) (selected_index m))
   \<and> (scroll_pos m \<le> selected_index m \<and> selected_index m < scroll_pos m + (h - 12)
        \<longrightarrow> scroll_pos (draw_frame m h cs) = scroll_pos m)"
proof -
  have msg: "status_message (draw_frame m h cs) =
       (if contains ''Successfully'' (status_message m) \<or> contains ''Error'' (status_message m)
        then [] else status_message m)"
    and pnt: "painted (draw_frame m h cs) =
       (if status_message m \<noteq> [] then painted m @ [status_message m] else painted m)"
    using draw_footer_message [of "draw_container_list m h cs"]
    by (simp_all add: draw_frame_def draw_container_list_frame)
  have scr: "scroll_pos (draw_frame m h cs) =
       (if truthy_opt (docker_error m) \<or> cs = [] then scroll_pos m
        else if selected_index m \<ge> min (scroll_pos m) (selected_index m) + (h - 12)
        then selected_index m - (h - 12) + 1
        else min (scroll_pos m) (selected_index m))"
    by (simp add: draw_frame_def draw_footer_frame draw_container_list_scroll)
  have win: "scroll_pos (draw_frame m h cs) = scroll_pos m"
    if "scroll_pos m \<le> selected_index m \<and> selected_index m < scroll_pos m + (h - 12)"
    using that by (simp add: scr min_def)
  show ?thesis
    using msg pnt scr win by (simp add: draw_frame_frame)
qed

theorem frame_effects_witness:
  "scroll_pos (init None) \<le> selected_index (init None)
   \<and> selected_index (init None) < scroll_pos (init None) + (24 - 12)
   \<and> draw_frame (init None) 24 (fst (get_docker_containers env_nat (init None) (Inr [web_1, db_1])))
       = init None
   \<and> status_message (draw_frame ((init None)\<lparr>status_message := ''Error: no such container''\<rparr>) 24 [])
       = []
   \<and> painted (draw_frame ((init None)\<lparr>status_message := ''Error: no such container''\<rparr>) 24 [])
       = [''Error: no such container'']
   \<and> status_message (draw_frame ((init None)\<lparr>status_message := ''Container list updated.''\<rparr>) 24 [])
       = ''Container list updated.''"
proof -
  let ?cs = "fst (get_docker_containers env_nat (init None) (Inr [web_1, db_1]))"
  let ?e = "(init None)\<lparr>status_message := ''Error: no such container''\<rparr>"
  let ?u = "(init None)\<lparr>status_message := ''Container list updated.''\<rparr>"
  have pre: "scroll_pos (init None) \<le> selected_index (init None)"
    "selected_index (init None) < scroll_pos (init None) + (24 - 12)"
    by (simp_all add: init_def)
  have m0: "status_message (init None) = []" "painted (init None) = []"
    by (simp_all add: init_def)
  from frame_effects [of "init None" 24 ?cs] pre m0
  have "selected_index (draw_frame (init None) 24 ?cs) = selected_index (init None)
      \<and> docker_error (draw_frame (init None) 24 ?cs) = docker_error (init None)
      \<and> runtime_calls (draw_frame (init None) 24 ?cs) = runtime_calls (init None)
      \<and> status_message (draw_frame (init None) 24 ?cs) = status_message (init None)
      \<and> painted (draw_frame (init None) 24 ?cs) = painted (init None)
      \<and> scroll_pos (draw_frame (init None) 24 ?cs) = scroll_pos (init None)"
    by simp
  moreover have "commands (draw_frame (init None) 24 ?cs) = commands (init None)"
    by (simp add: draw_frame_def draw_footer_def draw_container_list_def Let_def)
  ultimately have a: "draw_frame (init None) 24 ?cs = init None"
    by simp
  have ce: "contains ''Error'' ''Error: no such container''"
    by code_simp
  have cu: "\<not> contains ''Successfully'' ''Container list updated.''"
    "\<not> contains ''Error'' ''Container list updated.''"
    by code_simp+
  from frame_effects [of ?e 24 "[]"] ce
  have b: "status_message (draw_frame ?e 24 []) = []"
    and c: "painted (draw_frame ?e 24 []) = [''Error: no such container'']"
    by (simp_all add: m0)
  from frame_effects [of ?u 24 "[]"] cu
  have d: "status_message (draw_frame ?u 24 []) = ''Container list updated.''"
    by simp
  show ?thesis
    by (intro conjI pre a b c d)
qed

text \<open>
  The claim as written, no change to the scroll position, fails: with two containers on
  a screen of 13 lines and the second one selected, drawing the frame moves the scroll
  position from 0 to 1.
\<close>

theorem frame_effects_counterexample:
  "scroll_pos ((init None)\<lparr>selected_index := 1\<rparr>) = 0
   \<and> scroll_pos (draw_frame ((init None)\<lparr>selected_index := 1\<rparr>) 13
        (fst (get_docker_containers env_nat (init None) (Inr [web_1, db_1])))) = 1"
  by code_simp

section \<open>The selection after the inventory shrinks\<close>

text \<open>
  C4 at a failing input. Two containers are listed, the operator moves down to the second
  row, and the next refresh lists only one container: the selection is still 1, past the
  end of an inventory of one record. With an empty listing instead the selection is also
  still 1, and the up key then moves it to 0.
\<close>

theorem selection_after_shrink:
  "selected_index (monitor_of (app_loop env_nat (Inr [web_1, db_1]) (init None)
       [turn KEY_DOWN (Inr [web_1, db_1]), turn (- 1) (Inr [db_1])])) = 1
   \<and> map rec_name (inventory_of (app_loop env_nat (Inr [web_1, db_1]) (init None)
       [turn KEY_DOWN (Inr [web_1, db_1]), turn (- 1) (Inr [db_1])])) = [''db-1'']
   \<and> selected_index (monitor_of (app_loop env_nat (Inr [web_1, db_1]) (init None)
       [turn KEY_DOWN (Inr [web_1, db_1]), turn (- 1) (Inr [])])) = 1
   \<and> inventory_of (app_loop env_nat (Inr [web_1, db_1]) (init None)
       [turn KEY_DOWN (Inr [web_1, db_1]), turn (- 1) (Inr [])]) = []
   \<and> selected_index (monitor_of (app_loop env_nat (Inr [web_1, db_1]) (init None)
       [turn KEY_DOWN (Inr [web_1, db_1]), turn (- 1) (Inr []), turn KEY_UP (Inr [])])) = 0"
  by code_simp

section \<open>An exception that leaves the loop\<close>

text \<open>
  C6 at a failing input. After the same shrinking refresh, the start key indexes the
  inventory of one record at 1: the IndexError of line 185 is raised before the
  \<open>try\<close> and leaves the loop. So does the delete key, at line 494.
\<close>

theorem action_after_shrink:
  "raised (app_loop env_nat (Inr [web_1, db_1]) (init None)
       [turn KEY_DOWN (Inr [web_1, db_1]), turn (- 1) (Inr [db_1]), turn (ord CHR ''s'') (Inr [db_1])])
     = Some (Raise IndexError ''list index out of range'')
   \<and> raised (app_loop env_nat (Inr [web_1, db_1]) (init None)
       [turn KEY_DOWN (Inr [web_1, db_1]), turn (- 1) (Inr [db_1]), turn (ord CHR ''d'') (Inr [db_1])])
     = Some (Raise IndexError ''list index out of range'')"
  by code_simp

end
